theory Spec2Isabelle
  imports Main "HOL-Library.Code_Target_Nat"
begin

section \<open>Tokens\<close>

text \<open>
  Modelled from the spec: the enumeration \<open>TokenType\<close> is declared in \<open>lexer.ts\<close>, which
  is not part of the sources at hand. The members below are the ones the specification lists
  (section 3) together with those \<open>parser.ts\<close> names (\<open>TokenType.BinaryEquals\<close>, line 101);
  \<open>BinaryOperator\<close> stands for the type the lexer gives to \<open>+ - * / %\<close>, which the parser
  never inspects (it compares the token's text instead).
\<close>

datatype TokenType =
    TokenType_Number
  | TokenType_Identifier
  | TokenType_String
  | TokenType_Set
  | TokenType_Lock
  | TokenType_Fun
  | TokenType_If
  | TokenType_Else
  | TokenType_BinaryOperator
  | TokenType_Equals
  | TokenType_DoubleEquals
  | TokenType_NotEquals
  | TokenType_BinaryEquals
  | TokenType_Comma
  | TokenType_Dot
  | TokenType_Colon
  | TokenType_Semicolon
  | TokenType_OpenParen
  | TokenType_CloseParen
  | TokenType_OpenBrace
  | TokenType_CloseBrace
  | TokenType_OpenBracket
  | TokenType_CloseBracket
  | TokenType_EOF

record Token =
  type :: TokenType
  "value" :: string

definition tok :: "TokenType \<Rightarrow> string \<Rightarrow> Token" where
  "tok ty v = \<lparr>type = ty, value = v\<rparr>"

section \<open>Abstract syntax\<close>

text \<open>
  The node shapes follow the object literals that \<open>parser.ts\<close> builds and the data model of
  the specification; constructor arguments are in the order of the specification's table.
  \<open>NumericLiteral\<close> holds the result of JavaScript's \<open>parseFloat\<close>: for a plain run of
  decimal digits whose value a double represents exactly the model computes it (\<open>Exact\<close>),
  every other text is kept unevaluated (\<open>FloatOf\<close>).
\<close>

datatype number = Exact nat | FloatOf string

datatype Expr =
    AssignmentExpr Expr Expr \<comment> \<open>assigne, value\<close>
  | ObjectLiteral "Property list"
  | BinaryExpr Expr Expr string \<comment> \<open>left, right, operator\<close>
  | EqualityExpr Expr TokenType Expr \<comment> \<open>left, operator, right\<close>
  | CallExpr Expr "Expr list" \<comment> \<open>caller, args\<close>
  | MemberExpr Expr Expr bool \<comment> \<open>object, property, computed\<close>
  | Identifier string
  | NumericLiteral number
  | StringLiteral string
  | EmptyObject \<comment> \<open>the value \<open>{} as Expr\<close> of line 100\<close>
and Property = Property string "Expr option" \<comment> \<open>key, value\<close>

text \<open>
  In the source \<open>Expr\<close> is a subtype of \<open>Stmt\<close>; \<open>ExprStmt\<close> is that inclusion. An
  \<open>IfStmt\<close> is built with five fields (lines 131-138): conditional, operator, right,
  consequent, alternate.
\<close>

datatype Stmt =
    VarDeclaration string "Expr option" bool \<comment> \<open>identifier, value, constant\<close>
  | FunctionDeclaration string "string list" "Stmt list" \<comment> \<open>name, parameters, body\<close>
  | IfStmt Expr TokenType Expr "Stmt list" "Stmt list option"
  | ExprStmt Expr

datatype Program = Program "Stmt list"

definition digit_of :: "char \<Rightarrow> nat option" where
  "digit_of c =
    (let code = (of_char c :: nat)
     in if 48 \<le> code \<and> code \<le> 57 then Some (code - 48) else None)"

fun digits_value :: "nat \<Rightarrow> string \<Rightarrow> nat option" where
  "digits_value acc [] = Some acc"
| "digits_value acc (c # cs) =
    (case digit_of c of None \<Rightarrow> None | Some d \<Rightarrow> digits_value (10 * acc + d) cs)"

definition parseFloat :: "string \<Rightarrow> number" where
  "parseFloat s =
    (if s = [] then FloatOf s
     else case digits_value 0 s of
            None \<Rightarrow> FloatOf s
          | Some v \<Rightarrow> if v \<le> 2 ^ 53 then Exact v else FloatOf s)"

section \<open>Errors and results\<close>

text \<open>
  Every way the parser stops without a tree: \<open>expect\<close> printing its message and leaving the
  process (lines 57-60), the default branch of \<open>parse_primary_expr\<close> doing the same
  (lines 445-447), a \<open>throw\<close> of a message, and the \<open>TypeError\<close> JavaScript raises when a
  property of \<open>undefined\<close> is read, which is what \<open>this.tokens[0].type\<close> does on an empty
  buffer.
\<close>

datatype error =
    ExpectFailed string "Token option" TokenType \<comment> \<open>err, prev, type\<close>
  | UnexpectedToken Token
  | Thrown string
  | TypeError

text \<open>
  A parsing function returns its value together with the token buffer it leaves behind.
  \<open>OutOfFuel\<close> is the model's own outcome: the recursion bound below was too small.
\<close>

datatype 'a result = OutOfFuel | Error error | Ok 'a "Token list"

fun bind :: "'a result \<Rightarrow> ('a \<Rightarrow> Token list \<Rightarrow> 'b result) \<Rightarrow> 'b result" where
  "bind OutOfFuel f = OutOfFuel"
| "bind (Error e) f = Error e"
| "bind (Ok a ts) f = f a ts"

definition msg_constant_without_value :: string where
  "msg_constant_without_value = ''Must assigne value to constant expression. No value provided.''"

definition msg_parameter_not_identifier :: string where
  "msg_parameter_not_identifier =
     ''Inside function declaration expected parameters to be of type string.''"

definition msg_dot_without_identifier :: string where
  "msg_dot_without_identifier =
     ''Cannonot use dot operator without right hand side being a identifier''"

text \<open>
  Modelled from the spec: the source has no error classes; section 7 of the specification
  sorts the failures into two kinds. A Declaration Error is an immutable binding without
  initializer or a parameter that is not a name; a Syntax Error is a failed \<open>expect\<close>, an
  unexpected token in primary position, or a dot not followed by an identifier.
\<close>

fun is_declaration_error :: "error \<Rightarrow> bool" where
  "is_declaration_error (Thrown m) =
     (m = msg_constant_without_value \<or> m = msg_parameter_not_identifier)"
| "is_declaration_error _ = False"


section \<open>The token cursor\<close>

text \<open>
  \<open>at\<close> is \<open>this.tokens[0]\<close> and \<open>eat\<close> is \<open>this.tokens.shift()\<close>: on an empty buffer both
  give \<open>undefined\<close> (\<open>None\<close>) and raise nothing. \<open>deref\<close> is the read of \<open>.type\<close> or
  \<open>.value\<close> that follows, which raises on \<open>undefined\<close>.
\<close>

definition at :: "Token list \<Rightarrow> Token option" where
  "at toks = (case toks of [] \<Rightarrow> None | t # _ \<Rightarrow> Some t)"

definition eat :: "Token list \<Rightarrow> Token option \<times> Token list" where
  "eat toks = (case toks of [] \<Rightarrow> (None, []) | t # ts \<Rightarrow> (Some t, ts))"

definition deref :: "Token option \<Rightarrow> Token list \<Rightarrow> Token result" where
  "deref p ts = (case p of None \<Rightarrow> Error TypeError | Some t \<Rightarrow> Ok t ts)"

definition at_tok :: "Token list \<Rightarrow> Token result" where
  "at_tok toks = deref (at toks) toks"

definition eat_tok :: "Token list \<Rightarrow> Token result" where
  "eat_tok toks = (case eat toks of (p, ts) \<Rightarrow> deref p ts)"

definition not_eof :: "Token list \<Rightarrow> bool result" where
  "not_eof toks = bind (at_tok toks) (\<lambda>t ts. Ok (type t \<noteq> TokenType_EOF) ts)"

definition expect :: "TokenType \<Rightarrow> string \<Rightarrow> Token list \<Rightarrow> Token result" where
  "expect ty err toks =
    (case eat toks of
       (None, ts) \<Rightarrow> Error (ExpectFailed err None ty)
     | (Some prev, ts) \<Rightarrow>
         if type prev \<noteq> ty then Error (ExpectFailed err (Some prev) ty) else Ok prev ts)"

section \<open>The parser\<close>

text \<open>
  The for-loop of \<open>parse_fn_declaration\<close> (lines 150-157): the first argument that is not
  an \<open>Identifier\<close> node throws, the symbols of the others are collected in order.
\<close>

fun params_loop :: "Expr list \<Rightarrow> string list \<Rightarrow> Token list \<Rightarrow> string list result" where
  "params_loop [] params ts = Ok params ts"
| "params_loop (arg # args) params ts =
    (case arg of
       Identifier symbol \<Rightarrow> params_loop args (params @ [symbol]) ts
     | _ \<Rightarrow> Error (Thrown msg_parameter_not_identifier))"

text \<open>
  The class \<open>Parser\<close>. Its methods call each other through \<open>this\<close>, so the model has a
  record with one field for each method: the object a method body is given to call. The
  \<open>while\<close> loops are methods of the model too (a loop is the function that runs one
  iteration and calls itself): \<open>stmt_loop\<close> is the loop that fills a block (written out
  three times in the source: lines 105-107, 123-125 and 165-170), the others are the loops
  of the method they are named after. The buffer \<open>this.tokens\<close> is passed in and returned.
\<close>

record Parser =
  parse_stmt :: "Token list \<Rightarrow> Stmt result"
  stmt_loop :: "Stmt list \<Rightarrow> Token list \<Rightarrow> Stmt list result"
  parse_if_stmt :: "Token list \<Rightarrow> Stmt result"
  parse_fn_declaration :: "Token list \<Rightarrow> Stmt result"
  parse_var_declaration :: "Token list \<Rightarrow> Stmt result"
  parse_expr :: "Token list \<Rightarrow> Expr result"
  parse_assignment_expr :: "Token list \<Rightarrow> Expr result"
  parse_object_expr :: "Token list \<Rightarrow> Expr result"
  object_loop :: "Property list \<Rightarrow> Token list \<Rightarrow> Property list result"
  parse_additive_expr :: "Token list \<Rightarrow> Expr result"
  additive_loop :: "Expr \<Rightarrow> Token list \<Rightarrow> Expr result"
  parse_multiplicitave_expr :: "Token list \<Rightarrow> Expr result"
  multiplicitave_loop :: "Expr \<Rightarrow> Token list \<Rightarrow> Expr result"
  parse_call_member_expr :: "Token list \<Rightarrow> Expr result"
  parse_call_expr :: "Expr \<Rightarrow> Token list \<Rightarrow> Expr result"
  parse_args :: "Token list \<Rightarrow> Expr list result"
  parse_arguments_list :: "Token list \<Rightarrow> Expr list result"
  arguments_loop :: "Expr list \<Rightarrow> Token list \<Rightarrow> Expr list result"
  parse_member_expr :: "Token list \<Rightarrow> Expr result"
  member_loop :: "Expr \<Rightarrow> Token list \<Rightarrow> Expr result"
  parse_primary_expr :: "Token list \<Rightarrow> Expr result"

text \<open>
  The method bodies. In the guard of the additive loop \<open>&&\<close> binds tighter than \<open>||\<close>,
  and \<open>not_eof()\<close> reads the same front token as \<open>at()\<close>.
\<close>

definition parse_stmt_body :: "Parser \<Rightarrow> Token list \<Rightarrow> Stmt result" where
  "parse_stmt_body this toks =
    bind (at_tok toks) (\<lambda>t _.
      if type t = TokenType_Set \<or> type t = TokenType_Lock then parse_var_declaration this toks
      else if type t = TokenType_Fun then parse_fn_declaration this toks
      else if type t = TokenType_If then parse_if_stmt this toks
      else bind (parse_expr this toks) (\<lambda>e ts. Ok (ExprStmt e) ts))"

definition stmt_loop_body :: "Parser \<Rightarrow> Stmt list \<Rightarrow> Token list \<Rightarrow> Stmt list result" where
  "stmt_loop_body this stmts toks =
    bind (at_tok toks) (\<lambda>t _.
      if type t \<noteq> TokenType_EOF \<and> type t \<noteq> TokenType_CloseBrace
      then bind (parse_stmt this toks) (\<lambda>s ts. stmt_loop this (stmts @ [s]) ts)
      else Ok stmts toks)"

definition parse_if_stmt_body :: "Parser \<Rightarrow> Token list \<Rightarrow> Stmt result" where
  "parse_if_stmt_body this toks =
    bind (expect TokenType_If ''Expected \"if\" keyword.'' toks) (\<lambda>_ ts1.
    bind (parse_expr this ts1) (\<lambda>conditional ts2.
    bind (expect TokenType_OpenBrace ''Expected opening brace for consequent block.'' ts2)
      (\<lambda>_ ts3.
    bind (stmt_loop this [] ts3) (\<lambda>consequent ts4.
    bind (expect TokenType_CloseBrace ''Expected closing brace for consequent block.'' ts4)
      (\<lambda>_ ts5.
    bind (at_tok ts5) (\<lambda>t _.
      if type t = TokenType_Else then
        (case eat ts5 of (_, ts6) \<Rightarrow>
          bind (at_tok ts6) (\<lambda>t' _.
            if type t' = TokenType_If then
              bind (parse_if_stmt this ts6) (\<lambda>s ts7.
                Ok (IfStmt conditional TokenType_BinaryEquals EmptyObject consequent (Some [s]))
                   ts7)
            else
              bind (expect TokenType_OpenBrace
                      ''Expected opening brace for alternate block.'' ts6) (\<lambda>_ ts7.
              bind (stmt_loop this [] ts7) (\<lambda>alternate ts8.
              bind (expect TokenType_CloseBrace
                      ''Expected closing brace for alternate block.'' ts8) (\<lambda>_ ts9.
                Ok (IfStmt conditional TokenType_BinaryEquals EmptyObject consequent
                      (Some alternate)) ts9)))))
      else Ok (IfStmt conditional TokenType_BinaryEquals EmptyObject consequent None) ts5))))))"

definition parse_fn_declaration_body :: "Parser \<Rightarrow> Token list \<Rightarrow> Stmt result" where
  "parse_fn_declaration_body this toks =
    (case eat toks of (_, ts0) \<Rightarrow>
    bind (expect TokenType_Identifier ''Expected function name following fn keyword'' ts0)
      (\<lambda>name ts1.
    bind (parse_args this ts1) (\<lambda>args ts2.
    bind (params_loop args [] ts2) (\<lambda>params ts3.
    bind (expect TokenType_OpenBrace ''Expected function body following declaration'' ts3)
      (\<lambda>_ ts4.
    bind (stmt_loop this [] ts4) (\<lambda>body ts5.
    bind (expect TokenType_CloseBrace
            ''Closing brace expected inside function declaration'' ts5) (\<lambda>_ ts6.
      Ok (FunctionDeclaration (value name) params body) ts6)))))))"

definition parse_var_declaration_body :: "Parser \<Rightarrow> Token list \<Rightarrow> Stmt result" where
  "parse_var_declaration_body this toks =
    bind (eat_tok toks) (\<lambda>keyword ts0.
    bind (expect TokenType_Identifier
            ''Expected identifier name following let | const keywords.'' ts0) (\<lambda>identifier ts1.
    bind (at_tok ts1) (\<lambda>t _.
      if type t = TokenType_Semicolon then
        (case eat ts1 of (_, ts2) \<Rightarrow>
          if type keyword = TokenType_Lock then Error (Thrown msg_constant_without_value)
          else Ok (VarDeclaration (value identifier) None False) ts2)
      else
        bind (expect TokenType_Equals
                ''Expected equals token following identifier in var declaration.'' ts1)
          (\<lambda>_ ts2.
        bind (parse_expr this ts2) (\<lambda>v ts3.
        bind (expect TokenType_Semicolon
                ''Variable declaration statment must end with semicolon.'' ts3) (\<lambda>_ ts4.
          Ok (VarDeclaration (value identifier) (Some v) (type keyword = TokenType_Lock))
             ts4))))))"

definition parse_expr_body :: "Parser \<Rightarrow> Token list \<Rightarrow> Expr result" where
  "parse_expr_body this toks =
    parse_assignment_expr this toks"

definition parse_assignment_expr_body :: "Parser \<Rightarrow> Token list \<Rightarrow> Expr result" where
  "parse_assignment_expr_body this toks =
    bind (parse_object_expr this toks) (\<lambda>left ts.
    bind (at_tok ts) (\<lambda>t _.
      if type t = TokenType_Equals then
        (case eat ts of (_, ts1) \<Rightarrow>
          bind (parse_assignment_expr this ts1) (\<lambda>v ts2. Ok (AssignmentExpr left v) ts2))
      else Ok left ts))"

definition parse_object_expr_body :: "Parser \<Rightarrow> Token list \<Rightarrow> Expr result" where
  "parse_object_expr_body this toks =
    bind (at_tok toks) (\<lambda>t _.
      if type t \<noteq> TokenType_OpenBrace then parse_additive_expr this toks
      else
        (case eat toks of (_, ts) \<Rightarrow>
          bind (object_loop this [] ts) (\<lambda>properties ts1.
          bind (expect TokenType_CloseBrace ''Object literal missing closing brace.'' ts1)
            (\<lambda>_ ts2. Ok (ObjectLiteral properties) ts2))))"

definition object_loop_body :: "Parser \<Rightarrow> Property list \<Rightarrow> Token list \<Rightarrow> Property list result" where
  "object_loop_body this properties toks =
    bind (not_eof toks) (\<lambda>ne _.
    bind (at_tok toks) (\<lambda>t _.
      if ne \<and> type t \<noteq> TokenType_CloseBrace then
        bind (expect TokenType_Identifier ''Object literal key expected'' toks) (\<lambda>key ts1.
        bind (at_tok ts1) (\<lambda>t1 _.
          if type t1 = TokenType_Comma then
            (case eat ts1 of (_, ts2) \<Rightarrow>
              object_loop this (properties @ [Property (value key) None]) ts2)
          else if type t1 = TokenType_CloseBrace then
            object_loop this (properties @ [Property (value key) None]) ts1
          else
            bind (expect TokenType_Colon
                    ''Missing colon following identifier in ObjectExpr'' ts1) (\<lambda>_ ts2.
            bind (parse_expr this ts2) (\<lambda>v ts3.
            bind (at_tok ts3) (\<lambda>t3 _.
              if type t3 \<noteq> TokenType_CloseBrace then
                bind (expect TokenType_Comma
                        ''Expected comma or closing bracket following property'' ts3)
                  (\<lambda>_ ts4. object_loop this (properties @ [Property (value key) (Some v)]) ts4)
              else object_loop this (properties @ [Property (value key) (Some v)]) ts3)))))
      else Ok properties toks))"

definition parse_additive_expr_body :: "Parser \<Rightarrow> Token list \<Rightarrow> Expr result" where
  "parse_additive_expr_body this toks =
    bind (parse_multiplicitave_expr this toks) (\<lambda>left ts. additive_loop this left ts)"

definition additive_loop_body :: "Parser \<Rightarrow> Expr \<Rightarrow> Token list \<Rightarrow> Expr result" where
  "additive_loop_body this left toks =
    bind (at_tok toks) (\<lambda>t _.
      if value t = ''+'' \<or> (value t = ''-'' \<and> type t \<noteq> TokenType_EOF) then
        bind (eat_tok toks) (\<lambda>operator ts.
        bind (parse_multiplicitave_expr this ts) (\<lambda>right ts1.
          additive_loop this (BinaryExpr left right (value operator)) ts1))
      else Ok left toks)"

definition parse_multiplicitave_expr_body :: "Parser \<Rightarrow> Token list \<Rightarrow> Expr result" where
  "parse_multiplicitave_expr_body this toks =
    bind (parse_call_member_expr this toks) (\<lambda>left ts. multiplicitave_loop this left ts)"

definition multiplicitave_loop_body :: "Parser \<Rightarrow> Expr \<Rightarrow> Token list \<Rightarrow> Expr result" where
  "multiplicitave_loop_body this left toks =
    bind (at_tok toks) (\<lambda>t _.
      if value t \<in> set [''/'', ''*'', ''%''] then
        bind (eat_tok toks) (\<lambda>operator ts.
        bind (parse_call_member_expr this ts) (\<lambda>right ts1.
          multiplicitave_loop this (BinaryExpr left right (value operator)) ts1))
      else Ok left toks)"

definition parse_call_member_expr_body :: "Parser \<Rightarrow> Token list \<Rightarrow> Expr result" where
  "parse_call_member_expr_body this toks =
    bind (parse_member_expr this toks) (\<lambda>member ts.
    bind (at_tok ts) (\<lambda>t _.
      if type t = TokenType_OpenParen then parse_call_expr this member ts
      else Ok member ts))"

definition parse_call_expr_body :: "Parser \<Rightarrow> Expr \<Rightarrow> Token list \<Rightarrow> Expr result" where
  "parse_call_expr_body this caller toks =
    bind (parse_args this toks) (\<lambda>args ts.
    bind (at_tok ts) (\<lambda>t _.
      if type t = TokenType_OpenParen then parse_call_expr this (CallExpr caller args) ts
      else Ok (CallExpr caller args) ts))"

definition parse_args_body :: "Parser \<Rightarrow> Token list \<Rightarrow> Expr list result" where
  "parse_args_body this toks =
    bind (expect TokenType_OpenParen ''Expected open parenthesis'' toks) (\<lambda>_ ts.
    bind (at_tok ts) (\<lambda>t _.
    bind (if type t = TokenType_CloseParen then Ok [] ts else parse_arguments_list this ts)
      (\<lambda>args ts1.
    bind (expect TokenType_CloseParen
            ''Missing closing parenthesis inside arguments list'' ts1) (\<lambda>_ ts2.
      Ok args ts2))))"

definition parse_arguments_list_body :: "Parser \<Rightarrow> Token list \<Rightarrow> Expr list result" where
  "parse_arguments_list_body this toks =
    bind (parse_assignment_expr this toks) (\<lambda>a ts. arguments_loop this [a] ts)"

definition arguments_loop_body :: "Parser \<Rightarrow> Expr list \<Rightarrow> Token list \<Rightarrow> Expr list result" where
  "arguments_loop_body this args toks =
    bind (at_tok toks) (\<lambda>t _.
      if type t = TokenType_Comma then
        (case eat toks of
           (None, ts) \<Rightarrow> Ok args ts
         | (Some _, ts) \<Rightarrow>
             bind (parse_assignment_expr this ts) (\<lambda>a ts1. arguments_loop this (args @ [a]) ts1))
      else Ok args toks)"

definition parse_member_expr_body :: "Parser \<Rightarrow> Token list \<Rightarrow> Expr result" where
  "parse_member_expr_body this toks =
    bind (parse_primary_expr this toks) (\<lambda>object ts. member_loop this object ts)"

definition member_loop_body :: "Parser \<Rightarrow> Expr \<Rightarrow> Token list \<Rightarrow> Expr result" where
  "member_loop_body this object toks =
    bind (at_tok toks) (\<lambda>t _.
      if type t = TokenType_Dot \<or> type t = TokenType_OpenBracket then
        bind (eat_tok toks) (\<lambda>operator ts.
          if type operator = TokenType_Dot then
            bind (parse_primary_expr this ts) (\<lambda>property ts1.
              (case property of
                 Identifier _ \<Rightarrow> member_loop this (MemberExpr object property False) ts1
               | _ \<Rightarrow> Error (Thrown msg_dot_without_identifier)))
          else
            bind (parse_expr this ts) (\<lambda>property ts1.
            bind (expect TokenType_CloseBracket
                    ''Missing closing bracket in computed value.'' ts1) (\<lambda>_ ts2.
              member_loop this (MemberExpr object property True) ts2)))
      else Ok object toks)"

definition parse_primary_expr_body :: "Parser \<Rightarrow> Token list \<Rightarrow> Expr result" where
  "parse_primary_expr_body this toks =
    bind (at_tok toks) (\<lambda>t _.
      if type t = TokenType_Identifier then
        bind (eat_tok toks) (\<lambda>tk ts. Ok (Identifier (value tk)) ts)
      else if type t = TokenType_Number then
        bind (eat_tok toks) (\<lambda>tk ts. Ok (NumericLiteral (parseFloat (value tk))) ts)
      else if type t = TokenType_String then
        bind (eat_tok toks) (\<lambda>tk ts. Ok (StringLiteral (value tk)) ts)
      else if type t = TokenType_OpenParen then
        (case eat toks of (_, ts) \<Rightarrow>
          bind (parse_expr this ts) (\<lambda>left ts1.
          bind (at_tok ts1) (\<lambda>t1 _.
          bind (if type t1 = TokenType_DoubleEquals \<or> type t1 = TokenType_NotEquals then
                  bind (eat_tok ts1) (\<lambda>operator ts2.
                  bind (parse_expr this ts2) (\<lambda>right ts3.
                    Ok (EqualityExpr left (type operator) right) ts3))
                else Ok left ts1) (\<lambda>v ts4.
          bind (expect TokenType_CloseParen
                  ''Unexpected token found inside parenthesised expression. Expected closing parenthesis.''
                  ts4) (\<lambda>_ ts5.
            Ok v ts5)))))
      else Error (UnexpectedToken t))"

text \<open>
  The recursion is bounded by a depth: \<open>parser n\<close> is the object whose methods may nest
  calls \<open>n\<close> deep. Each call through \<open>this\<close> spends one unit, and a method of \<open>parser 0\<close>
  gives up with \<open>OutOfFuel\<close>.
\<close>

primrec parser :: "nat \<Rightarrow> Parser" where
  "parser 0 =
    \<lparr> parse_stmt = (\<lambda>toks. OutOfFuel),
      stmt_loop = (\<lambda>x toks. OutOfFuel),
      parse_if_stmt = (\<lambda>toks. OutOfFuel),
      parse_fn_declaration = (\<lambda>toks. OutOfFuel),
      parse_var_declaration = (\<lambda>toks. OutOfFuel),
      parse_expr = (\<lambda>toks. OutOfFuel),
      parse_assignment_expr = (\<lambda>toks. OutOfFuel),
      parse_object_expr = (\<lambda>toks. OutOfFuel),
      object_loop = (\<lambda>x toks. OutOfFuel),
      parse_additive_expr = (\<lambda>toks. OutOfFuel),
      additive_loop = (\<lambda>x toks. OutOfFuel),
      parse_multiplicitave_expr = (\<lambda>toks. OutOfFuel),
      multiplicitave_loop = (\<lambda>x toks. OutOfFuel),
      parse_call_member_expr = (\<lambda>toks. OutOfFuel),
      parse_call_expr = (\<lambda>x toks. OutOfFuel),
      parse_args = (\<lambda>toks. OutOfFuel),
      parse_arguments_list = (\<lambda>toks. OutOfFuel),
      arguments_loop = (\<lambda>x toks. OutOfFuel),
      parse_member_expr = (\<lambda>toks. OutOfFuel),
      member_loop = (\<lambda>x toks. OutOfFuel),
      parse_primary_expr = (\<lambda>toks. OutOfFuel) \<rparr>"
| "parser (Suc n) =
    (let this = parser n in
    \<lparr> parse_stmt = parse_stmt_body this,
      stmt_loop = stmt_loop_body this,
      parse_if_stmt = parse_if_stmt_body this,
      parse_fn_declaration = parse_fn_declaration_body this,
      parse_var_declaration = parse_var_declaration_body this,
      parse_expr = parse_expr_body this,
      parse_assignment_expr = parse_assignment_expr_body this,
      parse_object_expr = parse_object_expr_body this,
      object_loop = object_loop_body this,
      parse_additive_expr = parse_additive_expr_body this,
      additive_loop = additive_loop_body this,
      parse_multiplicitave_expr = parse_multiplicitave_expr_body this,
      multiplicitave_loop = multiplicitave_loop_body this,
      parse_call_member_expr = parse_call_member_expr_body this,
      parse_call_expr = parse_call_expr_body this,
      parse_args = parse_args_body this,
      parse_arguments_list = parse_arguments_list_body this,
      arguments_loop = arguments_loop_body this,
      parse_member_expr = parse_member_expr_body this,
      member_loop = member_loop_body this,
      parse_primary_expr = parse_primary_expr_body this \<rparr>)"

text \<open>
  \<open>produceAST\<close> (lines 65-78) on the tokens that \<open>tokenize\<close> returned; the lexer is not
  among the sources, so the model starts from its output.
\<close>

primrec program_loop :: "nat \<Rightarrow> Stmt list \<Rightarrow> Token list \<Rightarrow> Stmt list result" where
  "program_loop 0 body toks = OutOfFuel"
| "program_loop (Suc n) body toks =
    bind (not_eof toks) (\<lambda>ne _.
      if ne then bind (parse_stmt (parser n) toks) (\<lambda>s ts. program_loop n (body @ [s]) ts)
      else Ok body toks)"

definition produceAST :: "nat \<Rightarrow> Token list \<Rightarrow> Program result" where
  "produceAST n toks = bind (program_loop n [] toks) (\<lambda>body ts. Ok (Program body) ts)"

text \<open>
  A depth that is always enough (see the section on termination), and the parser run with
  it.
\<close>

definition fuel_of :: "Token list \<Rightarrow> nat" where
  "fuel_of toks = 16 * (length toks + 1)"

definition parse :: "Token list \<Rightarrow> Program result" where
  "parse toks = produceAST (fuel_of toks) toks"

section \<open>Inputs\<close>

text \<open>
  Modelled from the spec: \<open>tokenize\<close> lives in \<open>lexer.ts\<close>, which is not among the sources,
  so the inputs of the examples are given as the token sequences the specification describes
  for their text (section 3): one token for each word, number, operator or punctuation mark,
  carrying its text, and a final \<open>EOF\<close> token. The text of that last token is not fixed by
  the specification; the examples give it the text \<open>EndOfFile\<close>, which is not an operator.
\<close>

definition EOF_token :: Token where
  "EOF_token = tok TokenType_EOF ''EndOfFile''"

text \<open>\<^verbatim>\<open>a.b(1)[2]\<close> and \<^verbatim>\<open>a.b(1)\<close>\<close>

definition tokens_member_call_index :: "Token list" where
  "tokens_member_call_index =
    [tok TokenType_Identifier ''a'', tok TokenType_Dot ''.'', tok TokenType_Identifier ''b'',
     tok TokenType_OpenParen ''('', tok TokenType_Number ''1'', tok TokenType_CloseParen '')'',
     tok TokenType_OpenBracket ''['', tok TokenType_Number ''2'',
     tok TokenType_CloseBracket '']'', EOF_token]"

definition tokens_member_call :: "Token list" where
  "tokens_member_call =
    [tok TokenType_Identifier ''a'', tok TokenType_Dot ''.'', tok TokenType_Identifier ''b'',
     tok TokenType_OpenParen ''('', tok TokenType_Number ''1'', tok TokenType_CloseParen '')'',
     EOF_token]"

text \<open>\<^verbatim>\<open>set x;\<close> and \<^verbatim>\<open>lock x;\<close> for an identifier \<open>x\<close>\<close>

definition tokens_set_bare :: "string \<Rightarrow> Token list" where
  "tokens_set_bare x =
    [tok TokenType_Set ''set'', tok TokenType_Identifier x, tok TokenType_Semicolon '';'',
     EOF_token]"

definition tokens_lock_bare :: "string \<Rightarrow> Token list" where
  "tokens_lock_bare x =
    [tok TokenType_Lock ''lock'', tok TokenType_Identifier x, tok TokenType_Semicolon '';'',
     EOF_token]"

text \<open>\<^verbatim>\<open>(a == b)\<close> and \<^verbatim>\<open>a == b\<close> for identifiers \<open>a\<close>, \<open>b\<close>\<close>

definition tokens_equality_parens :: "string \<Rightarrow> string \<Rightarrow> Token list" where
  "tokens_equality_parens a b =
    [tok TokenType_OpenParen ''('', tok TokenType_Identifier a, tok TokenType_DoubleEquals ''=='',
     tok TokenType_Identifier b, tok TokenType_CloseParen '')'', EOF_token]"

definition tokens_equality_bare :: "string \<Rightarrow> string \<Rightarrow> Token list" where
  "tokens_equality_bare a b =
    [tok TokenType_Identifier a, tok TokenType_DoubleEquals ''=='', tok TokenType_Identifier b,
     EOF_token]"

text \<open>\<^verbatim>\<open>{ a: 1, }\<close>, \<^verbatim>\<open>{ a, }\<close> and \<^verbatim>\<open>{ a: 1 b }\<close>\<close>

definition tokens_object_value_comma :: "Token list" where
  "tokens_object_value_comma =
    [tok TokenType_OpenBrace ''{'', tok TokenType_Identifier ''a'', tok TokenType_Colon '':'',
     tok TokenType_Number ''1'', tok TokenType_Comma '','', tok TokenType_CloseBrace ''}'',
     EOF_token]"

definition tokens_object_shorthand_comma :: "Token list" where
  "tokens_object_shorthand_comma =
    [tok TokenType_OpenBrace ''{'', tok TokenType_Identifier ''a'', tok TokenType_Comma '','',
     tok TokenType_CloseBrace ''}'', EOF_token]"

definition tokens_object_no_separator :: "Token list" where
  "tokens_object_no_separator =
    [tok TokenType_OpenBrace ''{'', tok TokenType_Identifier ''a'', tok TokenType_Colon '':'',
     tok TokenType_Number ''1'', tok TokenType_Identifier ''b'', tok TokenType_CloseBrace ''}'',
     EOF_token]"

text \<open>\<^verbatim>\<open>1 + 2 * 3\<close> and \<^verbatim>\<open>1 - 2 - 3\<close>\<close>

definition tokens_1_plus_2_times_3 :: "Token list" where
  "tokens_1_plus_2_times_3 =
    [tok TokenType_Number ''1'', tok TokenType_BinaryOperator ''+'', tok TokenType_Number ''2'',
     tok TokenType_BinaryOperator ''*'', tok TokenType_Number ''3'', EOF_token]"

definition tokens_1_minus_2_minus_3 :: "Token list" where
  "tokens_1_minus_2_minus_3 =
    [tok TokenType_Number ''1'', tok TokenType_BinaryOperator ''-'', tok TokenType_Number ''2'',
     tok TokenType_BinaryOperator ''-'', tok TokenType_Number ''3'', EOF_token]"

text \<open>\<^verbatim>\<open>fun f(1) { }\<close>\<close>

definition tokens_fun_number_parameter :: "Token list" where
  "tokens_fun_number_parameter =
    [tok TokenType_Fun ''fun'', tok TokenType_Identifier ''f'', tok TokenType_OpenParen ''('',
     tok TokenType_Number ''1'', tok TokenType_CloseParen '')'', tok TokenType_OpenBrace ''{'',
     tok TokenType_CloseBrace ''}'', EOF_token]"

text \<open>\<^verbatim>\<open>fun f(1)\<close> with no body at all\<close>

definition tokens_fun_number_parameter_no_body :: "Token list" where
  "tokens_fun_number_parameter_no_body =
    [tok TokenType_Fun ''fun'', tok TokenType_Identifier ''f'', tok TokenType_OpenParen ''('',
     tok TokenType_Number ''1'', tok TokenType_CloseParen '')'', EOF_token]"

text \<open>\<^verbatim>\<open>if a { } else if b { }\<close>\<close>

definition tokens_if_else_if :: "Token list" where
  "tokens_if_else_if =
    [tok TokenType_If ''if'', tok TokenType_Identifier ''a'', tok TokenType_OpenBrace ''{'',
     tok TokenType_CloseBrace ''}'', tok TokenType_Else ''else'', tok TokenType_If ''if'',
     tok TokenType_Identifier ''b'', tok TokenType_OpenBrace ''{'',
     tok TokenType_CloseBrace ''}'', EOF_token]"

text \<open>\<^verbatim>\<open>1;\<close>, \<^verbatim>\<open>set x = 1;\<close> and \<^verbatim>\<open>set x = 1\<close>\<close>

definition tokens_1_semicolon :: "Token list" where
  "tokens_1_semicolon = [tok TokenType_Number ''1'', tok TokenType_Semicolon '';'', EOF_token]"

definition tokens_set_x_1_semicolon :: "Token list" where
  "tokens_set_x_1_semicolon =
    [tok TokenType_Set ''set'', tok TokenType_Identifier ''x'', tok TokenType_Equals ''='',
     tok TokenType_Number ''1'', tok TokenType_Semicolon '';'', EOF_token]"

definition tokens_set_x_1 :: "Token list" where
  "tokens_set_x_1 =
    [tok TokenType_Set ''set'', tok TokenType_Identifier ''x'', tok TokenType_Equals ''='',
     tok TokenType_Number ''1'', EOF_token]"

text \<open>\<^verbatim>\<open>{ a: 1, b: 2, }\<close>\<close>

definition tokens_object_two_values_comma :: "Token list" where
  "tokens_object_two_values_comma =
    [tok TokenType_OpenBrace ''{'', tok TokenType_Identifier ''a'', tok TokenType_Colon '':'',
     tok TokenType_Number ''1'', tok TokenType_Comma '','', tok TokenType_Identifier ''b'',
     tok TokenType_Colon '':'', tok TokenType_Number ''2'', tok TokenType_Comma '','',
     tok TokenType_CloseBrace ''}'', EOF_token]"

text \<open>\<^verbatim>\<open>a.b(1).c\<close> and \<^verbatim>\<open>f()()\<close>\<close>

definition tokens_call_then_dot :: "Token list" where
  "tokens_call_then_dot =
    [tok TokenType_Identifier ''a'', tok TokenType_Dot ''.'', tok TokenType_Identifier ''b'',
     tok TokenType_OpenParen ''('', tok TokenType_Number ''1'', tok TokenType_CloseParen '')'',
     tok TokenType_Dot ''.'', tok TokenType_Identifier ''c'', EOF_token]"

definition tokens_call_call :: "Token list" where
  "tokens_call_call =
    [tok TokenType_Identifier ''f'', tok TokenType_OpenParen ''('',
     tok TokenType_CloseParen '')'', tok TokenType_OpenParen ''('',
     tok TokenType_CloseParen '')'', EOF_token]"

section \<open>Classes of tokens\<close>

text \<open>
  The tests the parser makes on the token at the cursor. The two operator loops read the
  text of the token alone (\<open>parse_additive_expr\<close> also asks, when the text is \<open>-\<close>, that
  the token is not the end of the file); every other test reads its type.
\<close>

definition additive_operator :: "Token \<Rightarrow> bool" where
  "additive_operator t \<longleftrightarrow> value t = ''+'' \<or> (value t = ''-'' \<and> type t \<noteq> TokenType_EOF)"

definition multiplicative_operator :: "Token \<Rightarrow> bool" where
  "multiplicative_operator t \<longleftrightarrow> value t \<in> set [''/'', ''*'', ''%'']"

text \<open>
  \<open>parse_stmt\<close> dispatches on four keywords and hands any other token to \<open>parse_expr\<close>. An
  expression starts with an open brace (an object literal) or with one of the four tokens
  that \<open>parse_primary_expr\<close> accepts.
\<close>

definition statement_keyword :: "Token \<Rightarrow> bool" where
  "statement_keyword t \<longleftrightarrow>
     type t \<in> set [TokenType_Set, TokenType_Lock, TokenType_Fun, TokenType_If]"


definition starts_statement :: "Token \<Rightarrow> bool" where
  "starts_statement t \<longleftrightarrow>
     statement_keyword t \<or>
     type t \<in> set [TokenType_OpenBrace, TokenType_Identifier, TokenType_Number,
                    TokenType_String, TokenType_OpenParen]"

text \<open>
  An equality token has type \<open>DoubleEquals\<close> or \<open>NotEquals\<close> and a text that the operator
  loops do not take for an operator; a terminator is a semicolon of that kind. (A token
  is any record here: nothing ties its text to its type.)
\<close>

definition equality_token :: "Token \<Rightarrow> bool" where
  "equality_token t \<longleftrightarrow>
     (type t = TokenType_DoubleEquals \<or> type t = TokenType_NotEquals)
     \<and> \<not> additive_operator t \<and> \<not> multiplicative_operator t"

definition terminator :: "Token \<Rightarrow> bool" where
  "terminator t \<longleftrightarrow>
     type t = TokenType_Semicolon \<and> \<not> additive_operator t \<and> \<not> multiplicative_operator t"

section \<open>Properties of results\<close>

text \<open>
  The two extra fields of an \<open>IfStmt\<close> hold the fixed values, in the statement itself and
  in every statement nested in its blocks or in a function body.
\<close>

fun if_fields_fixed :: "Stmt \<Rightarrow> bool" where
  "if_fields_fixed (IfStmt conditional operator right consequent alternate) =
     (operator = TokenType_BinaryEquals \<and> right = EmptyObject
      \<and> list_all if_fields_fixed consequent
      \<and> (case alternate of None \<Rightarrow> True | Some stmts \<Rightarrow> list_all if_fields_fixed stmts))"
| "if_fields_fixed (FunctionDeclaration name params body) = list_all if_fields_fixed body"
| "if_fields_fixed (VarDeclaration identifier v constant) = True"
| "if_fields_fixed (ExprStmt e) = True"

text \<open>
  A call returned: it did not run out of depth. If it returned a value, \<open>shrinks m\<close> says
  that the buffer it left is shorter than \<open>m\<close>.
\<close>

fun returns :: "'a result \<Rightarrow> bool" where
  "returns OutOfFuel = False"
| "returns (Error e) = True"
| "returns (Ok a ts) = True"

fun shrinks :: "nat \<Rightarrow> 'a result \<Rightarrow> bool" where
  "shrinks m OutOfFuel = False"
| "shrinks m (Error e) = True"
| "shrinks m (Ok a ts) = (length ts < m)"

text \<open>
  \<open>consuming this\<close>: whenever a method of \<open>this\<close> returns a value, it has taken at least
  one token from the buffer; a loop (which may run no iteration) has not added any.
\<close>

definition consuming :: "Parser \<Rightarrow> bool" where
  "consuming this \<longleftrightarrow>
     (\<forall>toks a ts. parse_stmt this toks = Ok a ts \<longrightarrow> length ts < length toks) \<and>
     (\<forall>x toks a ts. stmt_loop this x toks = Ok a ts \<longrightarrow> length ts \<le> length toks) \<and>
     (\<forall>toks a ts. parse_if_stmt this toks = Ok a ts \<longrightarrow> length ts < length toks) \<and>
     (\<forall>toks a ts. parse_fn_declaration this toks = Ok a ts \<longrightarrow> length ts < length toks) \<and>
     (\<forall>toks a ts. parse_var_declaration this toks = Ok a ts \<longrightarrow> length ts < length toks) \<and>
     (\<forall>toks a ts. parse_expr this toks = Ok a ts \<longrightarrow> length ts < length toks) \<and>
     (\<forall>toks a ts. parse_assignment_expr this toks = Ok a ts \<longrightarrow> length ts < length toks) \<and>
     (\<forall>toks a ts. parse_object_expr this toks = Ok a ts \<longrightarrow> length ts < length toks) \<and>
     (\<forall>x toks a ts. object_loop this x toks = Ok a ts \<longrightarrow> length ts \<le> length toks) \<and>
     (\<forall>toks a ts. parse_additive_expr this toks = Ok a ts \<longrightarrow> length ts < length toks) \<and>
     (\<forall>x toks a ts. additive_loop this x toks = Ok a ts \<longrightarrow> length ts \<le> length toks) \<and>
     (\<forall>toks a ts. parse_multiplicitave_expr this toks = Ok a ts \<longrightarrow> length ts < length toks) \<and>
     (\<forall>x toks a ts. multiplicitave_loop this x toks = Ok a ts \<longrightarrow> length ts \<le> length toks) \<and>
     (\<forall>toks a ts. parse_call_member_expr this toks = Ok a ts \<longrightarrow> length ts < length toks) \<and>
     (\<forall>x toks a ts. parse_call_expr this x toks = Ok a ts \<longrightarrow> length ts < length toks) \<and>
     (\<forall>toks a ts. parse_args this toks = Ok a ts \<longrightarrow> length ts < length toks) \<and>
     (\<forall>toks a ts. parse_arguments_list this toks = Ok a ts \<longrightarrow> length ts < length toks) \<and>
     (\<forall>x toks a ts. arguments_loop this x toks = Ok a ts \<longrightarrow> length ts \<le> length toks) \<and>
     (\<forall>toks a ts. parse_member_expr this toks = Ok a ts \<longrightarrow> length ts < length toks) \<and>
     (\<forall>x toks a ts. member_loop this x toks = Ok a ts \<longrightarrow> length ts \<le> length toks) \<and>
     (\<forall>toks a ts. parse_primary_expr this toks = Ok a ts \<longrightarrow> length ts < length toks)"

text \<open>
  \<open>ready this b\<close>: every method of \<open>this\<close> returns on the buffers that the depth \<open>b\<close>
  covers, sixteen units for each token and a few more for the chain of calls that leads from
  the method to the first token it consumes.
\<close>

definition ready :: "Parser \<Rightarrow> nat \<Rightarrow> bool" where
  "ready this b \<longleftrightarrow>
     (\<forall>toks. 16 * length toks + 9 \<le> b \<longrightarrow> returns (parse_stmt this toks)) \<and>
     (\<forall>x toks. 16 * length toks + 10 \<le> b \<longrightarrow> returns (stmt_loop this x toks)) \<and>
     (\<forall>toks. 16 * length toks + 1 \<le> b \<longrightarrow> returns (parse_if_stmt this toks)) \<and>
     (\<forall>toks. 16 * length toks + 1 \<le> b \<longrightarrow> returns (parse_fn_declaration this toks)) \<and>
     (\<forall>toks. 16 * length toks + 1 \<le> b \<longrightarrow> returns (parse_var_declaration this toks)) \<and>
     (\<forall>toks. 16 * length toks + 8 \<le> b \<longrightarrow> returns (parse_expr this toks)) \<and>
     (\<forall>toks. 16 * length toks + 7 \<le> b \<longrightarrow> returns (parse_assignment_expr this toks)) \<and>
     (\<forall>toks. 16 * length toks + 6 \<le> b \<longrightarrow> returns (parse_object_expr this toks)) \<and>
     (\<forall>x toks. 16 * length toks + 1 \<le> b \<longrightarrow> returns (object_loop this x toks)) \<and>
     (\<forall>toks. 16 * length toks + 5 \<le> b \<longrightarrow> returns (parse_additive_expr this toks)) \<and>
     (\<forall>x toks. 16 * length toks + 1 \<le> b \<longrightarrow> returns (additive_loop this x toks)) \<and>
     (\<forall>toks. 16 * length toks + 4 \<le> b \<longrightarrow> returns (parse_multiplicitave_expr this toks)) \<and>
     (\<forall>x toks. 16 * length toks + 1 \<le> b \<longrightarrow> returns (multiplicitave_loop this x toks)) \<and>
     (\<forall>toks. 16 * length toks + 3 \<le> b \<longrightarrow> returns (parse_call_member_expr this toks)) \<and>
     (\<forall>x toks. 16 * length toks + 2 \<le> b \<longrightarrow> returns (parse_call_expr this x toks)) \<and>
     (\<forall>toks. 16 * length toks + 1 \<le> b \<longrightarrow> returns (parse_args this toks)) \<and>
     (\<forall>toks. 16 * length toks + 8 \<le> b \<longrightarrow> returns (parse_arguments_list this toks)) \<and>
     (\<forall>x toks. 16 * length toks + 1 \<le> b \<longrightarrow> returns (arguments_loop this x toks)) \<and>
     (\<forall>toks. 16 * length toks + 2 \<le> b \<longrightarrow> returns (parse_member_expr this toks)) \<and>
     (\<forall>x toks. 16 * length toks + 1 \<le> b \<longrightarrow> returns (member_loop this x toks)) \<and>
     (\<forall>toks. 16 * length toks + 1 \<le> b \<longrightarrow> returns (parse_primary_expr this toks))"

text \<open>
  \<open>extends this this'\<close>: whatever a method of \<open>this\<close> returns, the method of \<open>this'\<close>
  returns too.
\<close>

definition extends :: "Parser \<Rightarrow> Parser \<Rightarrow> bool" where
  "extends this this' \<longleftrightarrow>
     (\<forall>toks. returns (parse_stmt this toks) \<longrightarrow> parse_stmt this' toks = parse_stmt this toks) \<and>
     (\<forall>x toks. returns (stmt_loop this x toks) \<longrightarrow> stmt_loop this' x toks = stmt_loop this x toks) \<and>
     (\<forall>toks. returns (parse_if_stmt this toks) \<longrightarrow> parse_if_stmt this' toks = parse_if_stmt this toks) \<and>
     (\<forall>toks. returns (parse_fn_declaration this toks) \<longrightarrow> parse_fn_declaration this' toks = parse_fn_declaration this toks) \<and>
     (\<forall>toks. returns (parse_var_declaration this toks) \<longrightarrow> parse_var_declaration this' toks = parse_var_declaration this toks) \<and>
     (\<forall>toks. returns (parse_expr this toks) \<longrightarrow> parse_expr this' toks = parse_expr this toks) \<and>
     (\<forall>toks. returns (parse_assignment_expr this toks) \<longrightarrow> parse_assignment_expr this' toks = parse_assignment_expr this toks) \<and>
     (\<forall>toks. returns (parse_object_expr this toks) \<longrightarrow> parse_object_expr this' toks = parse_object_expr this toks) \<and>
     (\<forall>x toks. returns (object_loop this x toks) \<longrightarrow> object_loop this' x toks = object_loop this x toks) \<and>
     (\<forall>toks. returns (parse_additive_expr this toks) \<longrightarrow> parse_additive_expr this' toks = parse_additive_expr this toks) \<and>
     (\<forall>x toks. returns (additive_loop this x toks) \<longrightarrow> additive_loop this' x toks = additive_loop this x toks) \<and>
     (\<forall>toks. returns (parse_multiplicitave_expr this toks) \<longrightarrow> parse_multiplicitave_expr this' toks = parse_multiplicitave_expr this toks) \<and>
     (\<forall>x toks. returns (multiplicitave_loop this x toks) \<longrightarrow> multiplicitave_loop this' x toks = multiplicitave_loop this x toks) \<and>
     (\<forall>toks. returns (parse_call_member_expr this toks) \<longrightarrow> parse_call_member_expr this' toks = parse_call_member_expr this toks) \<and>
     (\<forall>x toks. returns (parse_call_expr this x toks) \<longrightarrow> parse_call_expr this' x toks = parse_call_expr this x toks) \<and>
     (\<forall>toks. returns (parse_args this toks) \<longrightarrow> parse_args this' toks = parse_args this toks) \<and>
     (\<forall>toks. returns (parse_arguments_list this toks) \<longrightarrow> parse_arguments_list this' toks = parse_arguments_list this toks) \<and>
     (\<forall>x toks. returns (arguments_loop this x toks) \<longrightarrow> arguments_loop this' x toks = arguments_loop this x toks) \<and>
     (\<forall>toks. returns (parse_member_expr this toks) \<longrightarrow> parse_member_expr this' toks = parse_member_expr this toks) \<and>
     (\<forall>x toks. returns (member_loop this x toks) \<longrightarrow> member_loop this' x toks = member_loop this x toks) \<and>
     (\<forall>toks. returns (parse_primary_expr this toks) \<longrightarrow> parse_primary_expr this' toks = parse_primary_expr this toks)"



definition terminators :: "Token list \<Rightarrow> nat" where
  "terminators toks = length (filter terminator toks)"



text \<open>
  \<open>semicolon_free this\<close>: whatever a method of the expression grammar returns, it has
  consumed no terminator.
\<close>

definition semicolon_free :: "Parser \<Rightarrow> bool" where
  "semicolon_free this \<longleftrightarrow>
     (\<forall>toks a ts. parse_expr this toks = Ok a ts \<longrightarrow>
        terminators ts = terminators toks) \<and>
     (\<forall>toks a ts. parse_assignment_expr this toks = Ok a ts \<longrightarrow>
        terminators ts = terminators toks) \<and>
     (\<forall>toks a ts. parse_object_expr this toks = Ok a ts \<longrightarrow>
        terminators ts = terminators toks) \<and>
     (\<forall>x toks a ts. object_loop this x toks = Ok a ts \<longrightarrow>
        terminators ts = terminators toks) \<and>
     (\<forall>toks a ts. parse_additive_expr this toks = Ok a ts \<longrightarrow>
        terminators ts = terminators toks) \<and>
     (\<forall>x toks a ts. additive_loop this x toks = Ok a ts \<longrightarrow>
        terminators ts = terminators toks) \<and>
     (\<forall>toks a ts. parse_multiplicitave_expr this toks = Ok a ts \<longrightarrow>
        terminators ts = terminators toks) \<and>
     (\<forall>x toks a ts. multiplicitave_loop this x toks = Ok a ts \<longrightarrow>
        terminators ts = terminators toks) \<and>
     (\<forall>toks a ts. parse_call_member_expr this toks = Ok a ts \<longrightarrow>
        terminators ts = terminators toks) \<and>
     (\<forall>x toks a ts. parse_call_expr this x toks = Ok a ts \<longrightarrow>
        terminators ts = terminators toks) \<and>
     (\<forall>toks a ts. parse_args this toks = Ok a ts \<longrightarrow>
        terminators ts = terminators toks) \<and>
     (\<forall>toks a ts. parse_arguments_list this toks = Ok a ts \<longrightarrow>
        terminators ts = terminators toks) \<and>
     (\<forall>x toks a ts. arguments_loop this x toks = Ok a ts \<longrightarrow>
        terminators ts = terminators toks) \<and>
     (\<forall>toks a ts. parse_member_expr this toks = Ok a ts \<longrightarrow>
        terminators ts = terminators toks) \<and>
     (\<forall>x toks a ts. member_loop this x toks = Ok a ts \<longrightarrow>
        terminators ts = terminators toks) \<and>
     (\<forall>toks a ts. parse_primary_expr this toks = Ok a ts \<longrightarrow>
        terminators ts = terminators toks)"

section \<open>Unfolding the recursion\<close>

declare parser.simps [simp del]

lemma bind_weak_cong: "m = m' \<Longrightarrow> bind m f = bind m' f"
  by simp

lemma parser_0:
  "parse_stmt (parser 0) toks = OutOfFuel"
  "stmt_loop (parser 0) x1 toks = OutOfFuel"
  "parse_if_stmt (parser 0) toks = OutOfFuel"
  "parse_fn_declaration (parser 0) toks = OutOfFuel"
  "parse_var_declaration (parser 0) toks = OutOfFuel"
  "parse_expr (parser 0) toks = OutOfFuel"
  "parse_assignment_expr (parser 0) toks = OutOfFuel"
  "parse_object_expr (parser 0) toks = OutOfFuel"
  "object_loop (parser 0) x2 toks = OutOfFuel"
  "parse_additive_expr (parser 0) toks = OutOfFuel"
  "additive_loop (parser 0) x3 toks = OutOfFuel"
  "parse_multiplicitave_expr (parser 0) toks = OutOfFuel"
  "multiplicitave_loop (parser 0) x4 toks = OutOfFuel"
  "parse_call_member_expr (parser 0) toks = OutOfFuel"
  "parse_call_expr (parser 0) x5 toks = OutOfFuel"
  "parse_args (parser 0) toks = OutOfFuel"
  "parse_arguments_list (parser 0) toks = OutOfFuel"
  "arguments_loop (parser 0) x6 toks = OutOfFuel"
  "parse_member_expr (parser 0) toks = OutOfFuel"
  "member_loop (parser 0) x7 toks = OutOfFuel"
  "parse_primary_expr (parser 0) toks = OutOfFuel"
  by (simp_all add: parser.simps)

lemma parser_Suc:
  "parse_stmt (parser (Suc n)) = parse_stmt_body (parser n)"
  "stmt_loop (parser (Suc n)) = stmt_loop_body (parser n)"
  "parse_if_stmt (parser (Suc n)) = parse_if_stmt_body (parser n)"
  "parse_fn_declaration (parser (Suc n)) = parse_fn_declaration_body (parser n)"
  "parse_var_declaration (parser (Suc n)) = parse_var_declaration_body (parser n)"
  "parse_expr (parser (Suc n)) = parse_expr_body (parser n)"
  "parse_assignment_expr (parser (Suc n)) = parse_assignment_expr_body (parser n)"
  "parse_object_expr (parser (Suc n)) = parse_object_expr_body (parser n)"
  "object_loop (parser (Suc n)) = object_loop_body (parser n)"
  "parse_additive_expr (parser (Suc n)) = parse_additive_expr_body (parser n)"
  "additive_loop (parser (Suc n)) = additive_loop_body (parser n)"
  "parse_multiplicitave_expr (parser (Suc n)) = parse_multiplicitave_expr_body (parser n)"
  "multiplicitave_loop (parser (Suc n)) = multiplicitave_loop_body (parser n)"
  "parse_call_member_expr (parser (Suc n)) = parse_call_member_expr_body (parser n)"
  "parse_call_expr (parser (Suc n)) = parse_call_expr_body (parser n)"
  "parse_args (parser (Suc n)) = parse_args_body (parser n)"
  "parse_arguments_list (parser (Suc n)) = parse_arguments_list_body (parser n)"
  "arguments_loop (parser (Suc n)) = arguments_loop_body (parser n)"
  "parse_member_expr (parser (Suc n)) = parse_member_expr_body (parser n)"
  "member_loop (parser (Suc n)) = member_loop_body (parser n)"
  "parse_primary_expr (parser (Suc n)) = parse_primary_expr_body (parser n)"
  by (simp_all add: parser.simps Let_def)

lemma parser_numeral:
  "parse_stmt (parser (numeral k)) = parse_stmt_body (parser (pred_numeral k))"
  "stmt_loop (parser (numeral k)) = stmt_loop_body (parser (pred_numeral k))"
  "parse_if_stmt (parser (numeral k)) = parse_if_stmt_body (parser (pred_numeral k))"
  "parse_fn_declaration (parser (numeral k)) = parse_fn_declaration_body (parser (pred_numeral k))"
  "parse_var_declaration (parser (numeral k)) = parse_var_declaration_body (parser (pred_numeral k))"
  "parse_expr (parser (numeral k)) = parse_expr_body (parser (pred_numeral k))"
  "parse_assignment_expr (parser (numeral k)) = parse_assignment_expr_body (parser (pred_numeral k))"
  "parse_object_expr (parser (numeral k)) = parse_object_expr_body (parser (pred_numeral k))"
  "object_loop (parser (numeral k)) = object_loop_body (parser (pred_numeral k))"
  "parse_additive_expr (parser (numeral k)) = parse_additive_expr_body (parser (pred_numeral k))"
  "additive_loop (parser (numeral k)) = additive_loop_body (parser (pred_numeral k))"
  "parse_multiplicitave_expr (parser (numeral k)) = parse_multiplicitave_expr_body (parser (pred_numeral k))"
  "multiplicitave_loop (parser (numeral k)) = multiplicitave_loop_body (parser (pred_numeral k))"
  "parse_call_member_expr (parser (numeral k)) = parse_call_member_expr_body (parser (pred_numeral k))"
  "parse_call_expr (parser (numeral k)) = parse_call_expr_body (parser (pred_numeral k))"
  "parse_args (parser (numeral k)) = parse_args_body (parser (pred_numeral k))"
  "parse_arguments_list (parser (numeral k)) = parse_arguments_list_body (parser (pred_numeral k))"
  "arguments_loop (parser (numeral k)) = arguments_loop_body (parser (pred_numeral k))"
  "parse_member_expr (parser (numeral k)) = parse_member_expr_body (parser (pred_numeral k))"
  "member_loop (parser (numeral k)) = member_loop_body (parser (pred_numeral k))"
  "parse_primary_expr (parser (numeral k)) = parse_primary_expr_body (parser (pred_numeral k))"
  by (simp_all add: numeral_eq_Suc parser_Suc)

lemma program_loop_numeral:
  "program_loop (numeral k) body toks =
    bind (not_eof toks) (\<lambda>ne _.
      if ne then bind (parse_stmt (parser (pred_numeral k)) toks)
                   (\<lambda>s ts. program_loop (pred_numeral k) (body @ [s]) ts)
      else Ok body toks)"
  by (simp add: numeral_eq_Suc)

lemmas body_defs =
  parse_stmt_body_def stmt_loop_body_def parse_if_stmt_body_def parse_fn_declaration_body_def
  parse_var_declaration_body_def parse_expr_body_def parse_assignment_expr_body_def
  parse_object_expr_body_def object_loop_body_def parse_additive_expr_body_def
  additive_loop_body_def parse_multiplicitave_expr_body_def multiplicitave_loop_body_def
  parse_call_member_expr_body_def parse_call_expr_body_def parse_args_body_def
  parse_arguments_list_body_def arguments_loop_body_def parse_member_expr_body_def
  member_loop_body_def parse_primary_expr_body_def

lemmas cursor_defs = at_def eat_def deref_def at_tok_def eat_tok_def not_eof_def expect_def

lemmas run_simps =
  parse_def fuel_of_def produceAST_def parser_numeral parser_Suc parser_0 program_loop_numeral
  body_defs cursor_defs tok_def


lemmas input_defs =
  EOF_token_def tokens_member_call_index_def tokens_member_call_def tokens_set_bare_def
  tokens_lock_bare_def tokens_equality_parens_def tokens_equality_bare_def
  tokens_object_value_comma_def tokens_object_shorthand_comma_def
  tokens_object_no_separator_def tokens_1_plus_2_times_3_def tokens_1_minus_2_minus_3_def
  tokens_fun_number_parameter_def tokens_fun_number_parameter_no_body_def
  tokens_if_else_if_def tokens_1_semicolon_def tokens_set_x_1_semicolon_def
  tokens_set_x_1_def tokens_object_two_values_comma_def tokens_call_then_dot_def
  tokens_call_call_def

lemma parseFloat_digit:
  "parseFloat ''1'' = Exact 1" "parseFloat ''2'' = Exact 2" "parseFloat ''3'' = Exact 3"
  by (simp_all add: parseFloat_def digit_of_def)

section \<open>The examples of the specification\<close>

text \<open>
  C2. \<^verbatim>\<open>set x;\<close> yields a variable declaration that is not constant and has no value;
  \<^verbatim>\<open>lock x;\<close> stops the parse with the Declaration Error of a constant without a value.
\<close>

theorem bare_declaration:
  "parse (tokens_set_bare x) = Ok (Program [VarDeclaration x None False]) [EOF_token]
   \<and> parse (tokens_lock_bare x) = Error (Thrown msg_constant_without_value)
   \<and> is_declaration_error (Thrown msg_constant_without_value)"
  by (simp add: input_defs run_simps cong: bind_weak_cong)



lemma params_loop_non_identifier:
  "a \<in> set args \<Longrightarrow> \<forall>s. a \<noteq> Identifier s \<Longrightarrow>
     params_loop args params ts = Error (Thrown msg_parameter_not_identifier)"
proof (induction args arbitrary: params)
  case Nil
  then show ?case by simp
next
  case (Cons arg args)
  show ?case
  proof (cases "a = arg")
    case True
    with Cons.prems show ?thesis by (cases arg) simp_all
  next
    case False
    with Cons show ?thesis by (cases arg) simp_all
  qed
qed

text \<open>
  C7. In a function declaration any parsed argument that is not an \<open>Identifier\<close> node raises
  the Declaration Error, whatever tokens follow the argument list: the parameters are checked
  before the opening brace of the body is looked at. So \<^verbatim>\<open>fun f(1) { }\<close> fails with that
  error, and so does \<^verbatim>\<open>fun f(1)\<close> with no body at all.
\<close>

theorem non_identifier_parameter:
  "(type name = TokenType_Identifier \<and> parse_args (parser n) ts = Ok args ts'
      \<and> a \<in> set args \<and> (\<forall>s. a \<noteq> Identifier s)
    \<longrightarrow> parse_fn_declaration (parser (Suc n)) (kw # name # ts) =
          Error (Thrown msg_parameter_not_identifier))
   \<and> parse tokens_fun_number_parameter = Error (Thrown msg_parameter_not_identifier)
   \<and> parse tokens_fun_number_parameter_no_body = Error (Thrown msg_parameter_not_identifier)
   \<and> is_declaration_error (Thrown msg_parameter_not_identifier)"
proof -
  have general: "parse_fn_declaration (parser (Suc n)) (kw # name # ts) =
          Error (Thrown msg_parameter_not_identifier)"
    if "type name = TokenType_Identifier" "parse_args (parser n) ts = Ok args ts'"
       "a \<in> set args" "\<forall>s. a \<noteq> Identifier s"
    using that params_loop_non_identifier [of a args "[]" ts']
    by (simp add: parser_Suc parse_fn_declaration_body_def cursor_defs)
  have "parse tokens_fun_number_parameter = Error (Thrown msg_parameter_not_identifier)"
    by (simp add: input_defs run_simps parseFloat_digit cong: bind_weak_cong)
  moreover
  have "parse tokens_fun_number_parameter_no_body = Error (Thrown msg_parameter_not_identifier)"
    by (simp add: input_defs run_simps parseFloat_digit cong: bind_weak_cong)
  ultimately show ?thesis using general by simp
qed

theorem non_identifier_parameter_witness:
  "type (tok TokenType_Identifier ''f'') = TokenType_Identifier
   \<and> parse_args (parser 20)
        [tok TokenType_OpenParen ''('', tok TokenType_Number ''1'',
         tok TokenType_CloseParen '')'', tok TokenType_OpenBrace ''{'',
         tok TokenType_CloseBrace ''}'', EOF_token] =
       Ok [NumericLiteral (Exact 1)]
          [tok TokenType_OpenBrace ''{'', tok TokenType_CloseBrace ''}'', EOF_token]
   \<and> NumericLiteral (Exact 1) \<in> set [NumericLiteral (Exact 1)]
   \<and> (\<forall>s. NumericLiteral (Exact 1) \<noteq> Identifier s)
   \<and> parse_fn_declaration (parser (Suc 20))
        (tok TokenType_Fun ''fun'' # tok TokenType_Identifier ''f'' #
         [tok TokenType_OpenParen ''('', tok TokenType_Number ''1'',
          tok TokenType_CloseParen '')'', tok TokenType_OpenBrace ''{'',
          tok TokenType_CloseBrace ''}'', EOF_token]) =
       Error (Thrown msg_parameter_not_identifier)"
proof -
  have args: "parse_args (parser 20)
        [tok TokenType_OpenParen ''('', tok TokenType_Number ''1'',
         tok TokenType_CloseParen '')'', tok TokenType_OpenBrace ''{'',
         tok TokenType_CloseBrace ''}'', EOF_token] =
       Ok [NumericLiteral (Exact 1)]
          [tok TokenType_OpenBrace ''{'', tok TokenType_CloseBrace ''}'', EOF_token]"
    by (simp add: input_defs run_simps parseFloat_digit cong: bind_weak_cong)
  have name: "type (tok TokenType_Identifier ''f'') = TokenType_Identifier"
    by (simp add: tok_def)
  from non_identifier_parameter
         [of "tok TokenType_Identifier ''f''" 20 _ "[NumericLiteral (Exact 1)]" _
             "NumericLiteral (Exact 1)" "tok TokenType_Fun ''fun''"]
       args name
  show ?thesis by simp
qed

section \<open>The fields of an if-statement\<close>

lemma bind_OkE:
  assumes "bind m f = Ok b ts"
  obtains a ts' where "m = Ok a ts'" "f a ts' = Ok b ts"
  using assms by (cases m) simp_all

lemma var_if: "parse_var_declaration_body this toks = Ok s ts \<Longrightarrow> if_fields_fixed s"
  unfolding parse_var_declaration_body_def
  by (auto elim!: bind_OkE split: if_splits prod.splits)

lemma stmt_if:
  assumes "\<And>toks s ts. parse_var_declaration this toks = Ok s ts \<Longrightarrow> if_fields_fixed s"
    and "\<And>toks s ts. parse_fn_declaration this toks = Ok s ts \<Longrightarrow> if_fields_fixed s"
    and "\<And>toks s ts. parse_if_stmt this toks = Ok s ts \<Longrightarrow> if_fields_fixed s"
    and "parse_stmt_body this toks = Ok s ts"
  shows "if_fields_fixed s"
  using assms(4) unfolding parse_stmt_body_def
  by (auto elim!: bind_OkE split: if_splits dest!: assms(1,2,3))

lemma loop_if:
  assumes "\<And>toks s ts. parse_stmt this toks = Ok s ts \<Longrightarrow> if_fields_fixed s"
    and "\<And>acc toks r ts. stmt_loop this acc toks = Ok r ts \<Longrightarrow> list_all if_fields_fixed acc
           \<Longrightarrow> list_all if_fields_fixed r"
    and "list_all if_fields_fixed acc"
    and "stmt_loop_body this acc toks = Ok r ts"
  shows "list_all if_fields_fixed r"
  using assms(4,3) unfolding stmt_loop_body_def
  by (auto elim!: bind_OkE split: if_splits dest!: assms(1) assms(2))

lemma fn_if:
  assumes "\<And>toks r ts. stmt_loop this [] toks = Ok r ts \<Longrightarrow> list_all if_fields_fixed r"
    and "parse_fn_declaration_body this toks = Ok s ts"
  shows "if_fields_fixed s"
  using assms(2) unfolding parse_fn_declaration_body_def
  by (auto elim!: bind_OkE split: if_splits prod.splits dest!: assms(1))

lemma if_if:
  assumes "\<And>toks r ts. stmt_loop this [] toks = Ok r ts \<Longrightarrow> list_all if_fields_fixed r"
    and "\<And>toks s ts. parse_if_stmt this toks = Ok s ts \<Longrightarrow> if_fields_fixed s"
    and "parse_if_stmt_body this toks = Ok s ts"
  shows "if_fields_fixed s \<and> (\<exists>c cons alt. s = IfStmt c TokenType_BinaryEquals EmptyObject cons alt)"
  using assms(3) unfolding parse_if_stmt_body_def
  by (auto elim!: bind_OkE split: if_splits prod.splits dest!: assms(1) assms(2))

lemma if_fields_fixed_parser:
  "(\<forall>toks s ts. parse_stmt (parser n) toks = Ok s ts \<longrightarrow> if_fields_fixed s)
   \<and> (\<forall>acc toks r ts. stmt_loop (parser n) acc toks = Ok r ts \<longrightarrow> list_all if_fields_fixed acc
         \<longrightarrow> list_all if_fields_fixed r)
   \<and> (\<forall>toks s ts. parse_if_stmt (parser n) toks = Ok s ts \<longrightarrow> if_fields_fixed s)
   \<and> (\<forall>toks s ts. parse_fn_declaration (parser n) toks = Ok s ts \<longrightarrow> if_fields_fixed s)
   \<and> (\<forall>toks s ts. parse_var_declaration (parser n) toks = Ok s ts \<longrightarrow> if_fields_fixed s)"
proof (induction n)
  case 0
  show ?case by (simp add: parser_0)
next
  case (Suc n)
  from Suc have stmt: "\<And>toks s ts. parse_stmt (parser n) toks = Ok s ts \<Longrightarrow> if_fields_fixed s"
    and loop: "\<And>acc toks r ts. stmt_loop (parser n) acc toks = Ok r ts \<Longrightarrow>
                 list_all if_fields_fixed acc \<Longrightarrow> list_all if_fields_fixed r"
    and ifs: "\<And>toks s ts. parse_if_stmt (parser n) toks = Ok s ts \<Longrightarrow> if_fields_fixed s"
    and fn: "\<And>toks s ts. parse_fn_declaration (parser n) toks = Ok s ts \<Longrightarrow> if_fields_fixed s"
    and var: "\<And>toks s ts. parse_var_declaration (parser n) toks = Ok s ts \<Longrightarrow> if_fields_fixed s"
    by blast+
  have loop0: "\<And>toks r ts. stmt_loop (parser n) [] toks = Ok r ts \<Longrightarrow> list_all if_fields_fixed r"
    using loop by fastforce
  have 1: "if_fields_fixed s" if "parse_stmt_body (parser n) toks = Ok s ts" for toks s ts
    by (rule stmt_if [of "parser n", OF _ _ _ that]) (erule var fn ifs)+
  have 2: "list_all if_fields_fixed r"
    if "stmt_loop_body (parser n) acc toks = Ok r ts" "list_all if_fields_fixed acc"
    for acc toks r ts
    by (rule loop_if [of "parser n", OF _ _ that(2,1)]) (erule stmt loop, assumption?)+
  have 3: "if_fields_fixed s" if "parse_if_stmt_body (parser n) toks = Ok s ts" for toks s ts
    using if_if [of "parser n", OF _ _ that] loop0 ifs by blast
  have 4: "if_fields_fixed s" if "parse_fn_declaration_body (parser n) toks = Ok s ts"
    for toks s ts
    by (rule fn_if [of "parser n", OF _ that]) (erule loop0)
  show ?case
    unfolding parser_Suc using 1 2 3 4 var_if by blast
qed

lemma if_fields_fixed_program_loop:
  "program_loop n body toks = Ok r ts \<Longrightarrow> list_all if_fields_fixed body
     \<Longrightarrow> list_all if_fields_fixed r"
proof (induction n arbitrary: body toks)
  case 0
  then show ?case by simp
next
  case (Suc n)
  have stmt: "\<And>toks s ts. parse_stmt (parser n) toks = Ok s ts \<Longrightarrow> if_fields_fixed s"
    using if_fields_fixed_parser [of n] by blast
  from Suc.prems show ?case
    by (auto elim!: bind_OkE split: if_splits dest!: stmt Suc.IH)
qed

text \<open>
  C9. Every \<open>IfStmt\<close> the parser returns carries an \<open>operator\<close> field equal to the token
  type \<open>BinaryEquals\<close> and a \<open>right\<close> field equal to the empty object, whatever the input:
  this holds of the node \<open>parse_if_stmt\<close> returns and of every if-statement nested in it,
  and of every statement of a program \<open>produceAST\<close> returns.
\<close>

theorem if_stmt_extra_fields:
  "(parse_if_stmt (parser n) toks = Ok s ts \<longrightarrow>
      (\<exists>c cons alt. s = IfStmt c TokenType_BinaryEquals EmptyObject cons alt)
      \<and> if_fields_fixed s)
   \<and> (produceAST n toks = Ok (Program body) ts \<longrightarrow> list_all if_fields_fixed body)"
proof -
  have "\<exists>c cons alt. s = IfStmt c TokenType_BinaryEquals EmptyObject cons alt"
    if "parse_if_stmt (parser n) toks = Ok s ts"
  proof (cases n)
    case 0
    with that show ?thesis by (simp add: parser_0)
  next
    case (Suc k)
    have loop0: "\<And>toks r ts. stmt_loop (parser k) [] toks = Ok r ts \<Longrightarrow>
                   list_all if_fields_fixed r"
      using if_fields_fixed_parser [of k] by fastforce
    have ifs: "\<And>toks s ts. parse_if_stmt (parser k) toks = Ok s ts \<Longrightarrow> if_fields_fixed s"
      using if_fields_fixed_parser [of k] by blast
    from that Suc show ?thesis
      using if_if [OF loop0 ifs] by (simp add: parser_Suc)
  qed
  moreover have "list_all if_fields_fixed body" if "produceAST n toks = Ok (Program body) ts"
    using that if_fields_fixed_program_loop [of n "[]" toks body]
    by (auto simp: produceAST_def elim!: bind_OkE)
  ultimately show ?thesis
    using if_fields_fixed_parser [of n] by blast
qed


theorem if_stmt_extra_fields_witness:
  "parse_if_stmt (parser 40) tokens_if_else_if =
     Ok (IfStmt (Identifier ''a'') TokenType_BinaryEquals EmptyObject []
           (Some [IfStmt (Identifier ''b'') TokenType_BinaryEquals EmptyObject [] None]))
        [EOF_token]
   \<and> produceAST 40 tokens_if_else_if =
     Ok (Program
           [IfStmt (Identifier ''a'') TokenType_BinaryEquals EmptyObject []
              (Some [IfStmt (Identifier ''b'') TokenType_BinaryEquals EmptyObject [] None])])
        [EOF_token]
   \<and> if_fields_fixed
        (IfStmt (Identifier ''a'') TokenType_BinaryEquals EmptyObject []
           (Some [IfStmt (Identifier ''b'') TokenType_BinaryEquals EmptyObject [] None]))"
proof -
  have stmt: "parse_if_stmt (parser 40) tokens_if_else_if =
     Ok (IfStmt (Identifier ''a'') TokenType_BinaryEquals EmptyObject []
           (Some [IfStmt (Identifier ''b'') TokenType_BinaryEquals EmptyObject [] None]))
        [EOF_token]"
    by (simp add: input_defs run_simps cong: bind_weak_cong)
  have prog: "produceAST 40 tokens_if_else_if =
     Ok (Program
           [IfStmt (Identifier ''a'') TokenType_BinaryEquals EmptyObject []
              (Some [IfStmt (Identifier ''b'') TokenType_BinaryEquals EmptyObject [] None])])
        [EOF_token]"
    by (simp add: input_defs run_simps cong: bind_weak_cong)
  from if_stmt_extra_fields [of 40 tokens_if_else_if _ "[EOF_token]"] stmt prog
  show ?thesis by simp
qed

section \<open>Termination\<close>

lemma consumingD:
  assumes "consuming this"
  shows "parse_stmt this toks = Ok a0 ts \<Longrightarrow> length ts < length toks"
    and "stmt_loop this x1 toks = Ok a1 ts \<Longrightarrow> length ts \<le> length toks"
    and "parse_if_stmt this toks = Ok a2 ts \<Longrightarrow> length ts < length toks"
    and "parse_fn_declaration this toks = Ok a3 ts \<Longrightarrow> length ts < length toks"
    and "parse_var_declaration this toks = Ok a4 ts \<Longrightarrow> length ts < length toks"
    and "parse_expr this toks = Ok a5 ts \<Longrightarrow> length ts < length toks"
    and "parse_assignment_expr this toks = Ok a6 ts \<Longrightarrow> length ts < length toks"
    and "parse_object_expr this toks = Ok a7 ts \<Longrightarrow> length ts < length toks"
    and "object_loop this x8 toks = Ok a8 ts \<Longrightarrow> length ts \<le> length toks"
    and "parse_additive_expr this toks = Ok a9 ts \<Longrightarrow> length ts < length toks"
    and "additive_loop this x10 toks = Ok a10 ts \<Longrightarrow> length ts \<le> length toks"
    and "parse_multiplicitave_expr this toks = Ok a11 ts \<Longrightarrow> length ts < length toks"
    and "multiplicitave_loop this x12 toks = Ok a12 ts \<Longrightarrow> length ts \<le> length toks"
    and "parse_call_member_expr this toks = Ok a13 ts \<Longrightarrow> length ts < length toks"
    and "parse_call_expr this x14 toks = Ok a14 ts \<Longrightarrow> length ts < length toks"
    and "parse_args this toks = Ok a15 ts \<Longrightarrow> length ts < length toks"
    and "parse_arguments_list this toks = Ok a16 ts \<Longrightarrow> length ts < length toks"
    and "arguments_loop this x17 toks = Ok a17 ts \<Longrightarrow> length ts \<le> length toks"
    and "parse_member_expr this toks = Ok a18 ts \<Longrightarrow> length ts < length toks"
    and "member_loop this x19 toks = Ok a19 ts \<Longrightarrow> length ts \<le> length toks"
    and "parse_primary_expr this toks = Ok a20 ts \<Longrightarrow> length ts < length toks"
  using assms by (simp_all add: consuming_def)

lemma readyD:
  assumes "ready this b"
  shows "16 * length toks + 9 \<le> b \<Longrightarrow> returns (parse_stmt this toks)"
    and "16 * length toks + 10 \<le> b \<Longrightarrow> returns (stmt_loop this x1 toks)"
    and "16 * length toks + 1 \<le> b \<Longrightarrow> returns (parse_if_stmt this toks)"
    and "16 * length toks + 1 \<le> b \<Longrightarrow> returns (parse_fn_declaration this toks)"
    and "16 * length toks + 1 \<le> b \<Longrightarrow> returns (parse_var_declaration this toks)"
    and "16 * length toks + 8 \<le> b \<Longrightarrow> returns (parse_expr this toks)"
    and "16 * length toks + 7 \<le> b \<Longrightarrow> returns (parse_assignment_expr this toks)"
    and "16 * length toks + 6 \<le> b \<Longrightarrow> returns (parse_object_expr this toks)"
    and "16 * length toks + 1 \<le> b \<Longrightarrow> returns (object_loop this x8 toks)"
    and "16 * length toks + 5 \<le> b \<Longrightarrow> returns (parse_additive_expr this toks)"
    and "16 * length toks + 1 \<le> b \<Longrightarrow> returns (additive_loop this x10 toks)"
    and "16 * length toks + 4 \<le> b \<Longrightarrow> returns (parse_multiplicitave_expr this toks)"
    and "16 * length toks + 1 \<le> b \<Longrightarrow> returns (multiplicitave_loop this x12 toks)"
    and "16 * length toks + 3 \<le> b \<Longrightarrow> returns (parse_call_member_expr this toks)"
    and "16 * length toks + 2 \<le> b \<Longrightarrow> returns (parse_call_expr this x14 toks)"
    and "16 * length toks + 1 \<le> b \<Longrightarrow> returns (parse_args this toks)"
    and "16 * length toks + 8 \<le> b \<Longrightarrow> returns (parse_arguments_list this toks)"
    and "16 * length toks + 1 \<le> b \<Longrightarrow> returns (arguments_loop this x17 toks)"
    and "16 * length toks + 2 \<le> b \<Longrightarrow> returns (parse_member_expr this toks)"
    and "16 * length toks + 1 \<le> b \<Longrightarrow> returns (member_loop this x19 toks)"
    and "16 * length toks + 1 \<le> b \<Longrightarrow> returns (parse_primary_expr this toks)"
  using assms by (simp_all add: ready_def)

lemma expect_Ok: "expect ty err toks = Ok t ts \<Longrightarrow> length toks = Suc (length ts)"
  by (auto simp: expect_def eat_def split: list.splits if_splits)

lemma at_tok_Ok: "at_tok toks = Ok t ts \<Longrightarrow> ts = toks \<and> (\<exists>k. length toks = Suc k)"
  by (auto simp: at_tok_def at_def deref_def split: list.splits)

lemma eat_tok_Ok: "eat_tok toks = Ok t ts \<Longrightarrow> length toks = Suc (length ts)"
  by (auto simp: eat_tok_def eat_def deref_def split: list.splits)

lemma not_eof_Ok: "not_eof toks = Ok b ts \<Longrightarrow> ts = toks \<and> (\<exists>k. length toks = Suc k)"
  by (auto simp: not_eof_def at_tok_def at_def deref_def split: list.splits)

lemma eat_length: "eat toks = (x, ts) \<Longrightarrow> length ts = length toks - 1"
  by (auto simp: eat_def split: list.splits)

lemma params_loop_Ok: "params_loop args ps ts = Ok r ts' \<Longrightarrow> ts' = ts"
  by (induction args arbitrary: ps) (auto split: Expr.splits)

lemma cursor_returns:
  "returns (expect ty err toks)" "returns (at_tok toks)" "returns (eat_tok toks)"
  "returns (not_eof toks)"
  by (auto simp: expect_def at_tok_def eat_tok_def not_eof_def at_def eat_def deref_def
      split: list.splits)

lemma params_loop_returns: "returns (params_loop args ps ts)"
  by (induction args arbitrary: ps) (auto split: Expr.splits)

lemma bind_returns:
  "returns m \<Longrightarrow> (\<And>a ts. m = Ok a ts \<Longrightarrow> returns (f a ts)) \<Longrightarrow> returns (bind m f)"
  by (cases m) simp_all

lemmas cursor_Ok = expect_Ok at_tok_Ok eat_tok_Ok not_eof_Ok eat_length params_loop_Ok

lemma parse_stmt_consumes:
  assumes "consuming this" "parse_stmt_body this toks = Ok r ts"
  shows "length ts < length toks"
  using assms(2) unfolding parse_stmt_body_def
  by (auto elim!: bind_OkE split: if_splits prod.splits option.splits Expr.splits
      dest!: cursor_Ok consumingD [OF assms(1)]; linarith)

lemma stmt_loop_consumes:
  assumes "consuming this" "stmt_loop_body this x toks = Ok r ts"
  shows "length ts \<le> length toks"
  using assms(2) unfolding stmt_loop_body_def
  by (auto elim!: bind_OkE split: if_splits prod.splits option.splits Expr.splits
      dest!: cursor_Ok consumingD [OF assms(1)]; linarith)

lemma parse_if_stmt_consumes:
  assumes "consuming this" "parse_if_stmt_body this toks = Ok r ts"
  shows "length ts < length toks"
  using assms(2) unfolding parse_if_stmt_body_def
  by (auto elim!: bind_OkE split: if_splits prod.splits option.splits Expr.splits
      dest!: cursor_Ok consumingD [OF assms(1)]; linarith)

lemma parse_fn_declaration_consumes:
  assumes "consuming this" "parse_fn_declaration_body this toks = Ok r ts"
  shows "length ts < length toks"
  using assms(2) unfolding parse_fn_declaration_body_def
  by (auto elim!: bind_OkE split: if_splits prod.splits option.splits Expr.splits
      dest!: cursor_Ok consumingD [OF assms(1)]; linarith)

lemma parse_var_declaration_consumes:
  assumes "consuming this" "parse_var_declaration_body this toks = Ok r ts"
  shows "length ts < length toks"
  using assms(2) unfolding parse_var_declaration_body_def
  by (auto elim!: bind_OkE split: if_splits prod.splits option.splits Expr.splits
      dest!: cursor_Ok consumingD [OF assms(1)]; linarith)

lemma parse_expr_consumes:
  assumes "consuming this" "parse_expr_body this toks = Ok r ts"
  shows "length ts < length toks"
  using assms(2) unfolding parse_expr_body_def
  by (auto elim!: bind_OkE split: if_splits prod.splits option.splits Expr.splits
      dest!: cursor_Ok consumingD [OF assms(1)]; linarith)

lemma parse_assignment_expr_consumes:
  assumes "consuming this" "parse_assignment_expr_body this toks = Ok r ts"
  shows "length ts < length toks"
  using assms(2) unfolding parse_assignment_expr_body_def
  by (auto elim!: bind_OkE split: if_splits prod.splits option.splits Expr.splits
      dest!: cursor_Ok consumingD [OF assms(1)]; linarith)

lemma parse_object_expr_consumes:
  assumes "consuming this" "parse_object_expr_body this toks = Ok r ts"
  shows "length ts < length toks"
  using assms(2) unfolding parse_object_expr_body_def
  by (auto elim!: bind_OkE split: if_splits prod.splits option.splits Expr.splits
      dest!: cursor_Ok consumingD [OF assms(1)]; linarith)

lemma object_loop_consumes:
  assumes "consuming this" "object_loop_body this x toks = Ok r ts"
  shows "length ts \<le> length toks"
  using assms(2) unfolding object_loop_body_def
  by (auto elim!: bind_OkE split: if_splits prod.splits option.splits Expr.splits
      dest!: cursor_Ok consumingD [OF assms(1)]; linarith)

lemma parse_additive_expr_consumes:
  assumes "consuming this" "parse_additive_expr_body this toks = Ok r ts"
  shows "length ts < length toks"
  using assms(2) unfolding parse_additive_expr_body_def
  by (auto elim!: bind_OkE split: if_splits prod.splits option.splits Expr.splits
      dest!: cursor_Ok consumingD [OF assms(1)]; linarith)

lemma additive_loop_consumes:
  assumes "consuming this" "additive_loop_body this x toks = Ok r ts"
  shows "length ts \<le> length toks"
  using assms(2) unfolding additive_loop_body_def
  by (auto elim!: bind_OkE split: if_splits prod.splits option.splits Expr.splits
      dest!: cursor_Ok consumingD [OF assms(1)]; linarith)

lemma parse_multiplicitave_expr_consumes:
  assumes "consuming this" "parse_multiplicitave_expr_body this toks = Ok r ts"
  shows "length ts < length toks"
  using assms(2) unfolding parse_multiplicitave_expr_body_def
  by (auto elim!: bind_OkE split: if_splits prod.splits option.splits Expr.splits
      dest!: cursor_Ok consumingD [OF assms(1)]; linarith)

lemma multiplicitave_loop_consumes:
  assumes "consuming this" "multiplicitave_loop_body this x toks = Ok r ts"
  shows "length ts \<le> length toks"
  using assms(2) unfolding multiplicitave_loop_body_def
  by (auto elim!: bind_OkE split: if_splits prod.splits option.splits Expr.splits
      dest!: cursor_Ok consumingD [OF assms(1)]; linarith)

lemma parse_call_member_expr_consumes:
  assumes "consuming this" "parse_call_member_expr_body this toks = Ok r ts"
  shows "length ts < length toks"
  using assms(2) unfolding parse_call_member_expr_body_def
  by (auto elim!: bind_OkE split: if_splits prod.splits option.splits Expr.splits
      dest!: cursor_Ok consumingD [OF assms(1)]; linarith)

lemma parse_call_expr_consumes:
  assumes "consuming this" "parse_call_expr_body this x toks = Ok r ts"
  shows "length ts < length toks"
  using assms(2) unfolding parse_call_expr_body_def
  by (auto elim!: bind_OkE split: if_splits prod.splits option.splits Expr.splits
      dest!: cursor_Ok consumingD [OF assms(1)]; linarith)

lemma parse_args_consumes:
  assumes "consuming this" "parse_args_body this toks = Ok r ts"
  shows "length ts < length toks"
  using assms(2) unfolding parse_args_body_def
  by (auto elim!: bind_OkE split: if_splits prod.splits option.splits Expr.splits
      dest!: cursor_Ok consumingD [OF assms(1)]; linarith)

lemma parse_arguments_list_consumes:
  assumes "consuming this" "parse_arguments_list_body this toks = Ok r ts"
  shows "length ts < length toks"
  using assms(2) unfolding parse_arguments_list_body_def
  by (auto elim!: bind_OkE split: if_splits prod.splits option.splits Expr.splits
      dest!: cursor_Ok consumingD [OF assms(1)]; linarith)

lemma arguments_loop_consumes:
  assumes "consuming this" "arguments_loop_body this x toks = Ok r ts"
  shows "length ts \<le> length toks"
  using assms(2) unfolding arguments_loop_body_def
  by (auto elim!: bind_OkE split: if_splits prod.splits option.splits Expr.splits
      dest!: cursor_Ok consumingD [OF assms(1)]; linarith)

lemma parse_member_expr_consumes:
  assumes "consuming this" "parse_member_expr_body this toks = Ok r ts"
  shows "length ts < length toks"
  using assms(2) unfolding parse_member_expr_body_def
  by (auto elim!: bind_OkE split: if_splits prod.splits option.splits Expr.splits
      dest!: cursor_Ok consumingD [OF assms(1)]; linarith)

lemma member_loop_consumes:
  assumes "consuming this" "member_loop_body this x toks = Ok r ts"
  shows "length ts \<le> length toks"
  using assms(2) unfolding member_loop_body_def
  by (auto elim!: bind_OkE split: if_splits prod.splits option.splits Expr.splits
      dest!: cursor_Ok consumingD [OF assms(1)]; linarith)

lemma parse_primary_expr_consumes:
  assumes "consuming this" "parse_primary_expr_body this toks = Ok r ts"
  shows "length ts < length toks"
  using assms(2) unfolding parse_primary_expr_body_def
  by (auto elim!: bind_OkE split: if_splits prod.splits option.splits Expr.splits
      dest!: cursor_Ok consumingD [OF assms(1)]; linarith)

lemmas body_consumes =
  parse_stmt_consumes stmt_loop_consumes parse_if_stmt_consumes parse_fn_declaration_consumes
  parse_var_declaration_consumes parse_expr_consumes parse_assignment_expr_consumes
  parse_object_expr_consumes object_loop_consumes parse_additive_expr_consumes
  additive_loop_consumes parse_multiplicitave_expr_consumes multiplicitave_loop_consumes
  parse_call_member_expr_consumes parse_call_expr_consumes parse_args_consumes
  parse_arguments_list_consumes arguments_loop_consumes parse_member_expr_consumes
  member_loop_consumes parse_primary_expr_consumes

lemma consuming_parser: "consuming (parser n)"
proof (induction n)
  case 0
  show ?case by (simp add: consuming_def parser_0)
next
  case (Suc n)
  show ?case
    unfolding consuming_def parser_Suc
    by (intro conjI allI impI) (erule body_consumes [OF Suc])+
qed

lemma parse_stmt_returns:
  assumes "consuming this" "ready this b" "16 * length toks + 9 \<le> Suc b"
  shows "returns (parse_stmt_body this toks)"
  using assms(3) unfolding parse_stmt_body_def
  by (auto intro!: bind_returns readyD [OF assms(2)] simp: cursor_returns params_loop_returns
      split: if_splits prod.splits option.splits Expr.splits
      dest!: cursor_Ok consumingD [OF assms(1)]; linarith)

lemma stmt_loop_returns:
  assumes "consuming this" "ready this b" "16 * length toks + 10 \<le> Suc b"
  shows "returns (stmt_loop_body this x toks)"
  using assms(3) unfolding stmt_loop_body_def
  by (auto intro!: bind_returns readyD [OF assms(2)] simp: cursor_returns params_loop_returns
      split: if_splits prod.splits option.splits Expr.splits
      dest!: cursor_Ok consumingD [OF assms(1)]; linarith)

lemma parse_if_stmt_returns:
  assumes "consuming this" "ready this b" "16 * length toks + 1 \<le> Suc b"
  shows "returns (parse_if_stmt_body this toks)"
  using assms(3) unfolding parse_if_stmt_body_def
  by (auto intro!: bind_returns readyD [OF assms(2)] simp: cursor_returns params_loop_returns
      split: if_splits prod.splits option.splits Expr.splits
      dest!: cursor_Ok consumingD [OF assms(1)]; linarith)

lemma parse_fn_declaration_returns:
  assumes "consuming this" "ready this b" "16 * length toks + 1 \<le> Suc b"
  shows "returns (parse_fn_declaration_body this toks)"
  using assms(3) unfolding parse_fn_declaration_body_def
  by (auto intro!: bind_returns readyD [OF assms(2)] simp: cursor_returns params_loop_returns
      split: if_splits prod.splits option.splits Expr.splits
      dest!: cursor_Ok consumingD [OF assms(1)]; linarith)

lemma parse_var_declaration_returns:
  assumes "consuming this" "ready this b" "16 * length toks + 1 \<le> Suc b"
  shows "returns (parse_var_declaration_body this toks)"
  using assms(3) unfolding parse_var_declaration_body_def
  by (auto intro!: bind_returns readyD [OF assms(2)] simp: cursor_returns params_loop_returns
      split: if_splits prod.splits option.splits Expr.splits
      dest!: cursor_Ok consumingD [OF assms(1)]; linarith)

lemma parse_expr_returns:
  assumes "consuming this" "ready this b" "16 * length toks + 8 \<le> Suc b"
  shows "returns (parse_expr_body this toks)"
  using assms(3) unfolding parse_expr_body_def
  by (auto intro!: bind_returns readyD [OF assms(2)] simp: cursor_returns params_loop_returns
      split: if_splits prod.splits option.splits Expr.splits
      dest!: cursor_Ok consumingD [OF assms(1)]; linarith)

lemma parse_assignment_expr_returns:
  assumes "consuming this" "ready this b" "16 * length toks + 7 \<le> Suc b"
  shows "returns (parse_assignment_expr_body this toks)"
  using assms(3) unfolding parse_assignment_expr_body_def
  by (auto intro!: bind_returns readyD [OF assms(2)] simp: cursor_returns params_loop_returns
      split: if_splits prod.splits option.splits Expr.splits
      dest!: cursor_Ok consumingD [OF assms(1)]; linarith)

lemma parse_object_expr_returns:
  assumes "consuming this" "ready this b" "16 * length toks + 6 \<le> Suc b"
  shows "returns (parse_object_expr_body this toks)"
  using assms(3) unfolding parse_object_expr_body_def
  by (auto intro!: bind_returns readyD [OF assms(2)] simp: cursor_returns params_loop_returns
      split: if_splits prod.splits option.splits Expr.splits
      dest!: cursor_Ok consumingD [OF assms(1)]; linarith)

lemma object_loop_returns:
  assumes "consuming this" "ready this b" "16 * length toks + 1 \<le> Suc b"
  shows "returns (object_loop_body this x toks)"
  using assms(3) unfolding object_loop_body_def
  by (auto intro!: bind_returns readyD [OF assms(2)] simp: cursor_returns params_loop_returns
      split: if_splits prod.splits option.splits Expr.splits
      dest!: cursor_Ok consumingD [OF assms(1)]; linarith)

lemma parse_additive_expr_returns:
  assumes "consuming this" "ready this b" "16 * length toks + 5 \<le> Suc b"
  shows "returns (parse_additive_expr_body this toks)"
  using assms(3) unfolding parse_additive_expr_body_def
  by (auto intro!: bind_returns readyD [OF assms(2)] simp: cursor_returns params_loop_returns
      split: if_splits prod.splits option.splits Expr.splits
      dest!: cursor_Ok consumingD [OF assms(1)]; linarith)

lemma additive_loop_returns:
  assumes "consuming this" "ready this b" "16 * length toks + 1 \<le> Suc b"
  shows "returns (additive_loop_body this x toks)"
  using assms(3) unfolding additive_loop_body_def
  by (auto intro!: bind_returns readyD [OF assms(2)] simp: cursor_returns params_loop_returns
      split: if_splits prod.splits option.splits Expr.splits
      dest!: cursor_Ok consumingD [OF assms(1)]; linarith)

lemma parse_multiplicitave_expr_returns:
  assumes "consuming this" "ready this b" "16 * length toks + 4 \<le> Suc b"
  shows "returns (parse_multiplicitave_expr_body this toks)"
  using assms(3) unfolding parse_multiplicitave_expr_body_def
  by (auto intro!: bind_returns readyD [OF assms(2)] simp: cursor_returns params_loop_returns
      split: if_splits prod.splits option.splits Expr.splits
      dest!: cursor_Ok consumingD [OF assms(1)]; linarith)

lemma multiplicitave_loop_returns:
  assumes "consuming this" "ready this b" "16 * length toks + 1 \<le> Suc b"
  shows "returns (multiplicitave_loop_body this x toks)"
  using assms(3) unfolding multiplicitave_loop_body_def
  by (auto intro!: bind_returns readyD [OF assms(2)] simp: cursor_returns params_loop_returns
      split: if_splits prod.splits option.splits Expr.splits
      dest!: cursor_Ok consumingD [OF assms(1)]; linarith)

lemma parse_call_member_expr_returns:
  assumes "consuming this" "ready this b" "16 * length toks + 3 \<le> Suc b"
  shows "returns (parse_call_member_expr_body this toks)"
  using assms(3) unfolding parse_call_member_expr_body_def
  by (auto intro!: bind_returns readyD [OF assms(2)] simp: cursor_returns params_loop_returns
      split: if_splits prod.splits option.splits Expr.splits
      dest!: cursor_Ok consumingD [OF assms(1)]; linarith)

lemma parse_call_expr_returns:
  assumes "consuming this" "ready this b" "16 * length toks + 2 \<le> Suc b"
  shows "returns (parse_call_expr_body this x toks)"
  using assms(3) unfolding parse_call_expr_body_def
  by (auto intro!: bind_returns readyD [OF assms(2)] simp: cursor_returns params_loop_returns
      split: if_splits prod.splits option.splits Expr.splits
      dest!: cursor_Ok consumingD [OF assms(1)]; linarith)

lemma parse_args_returns:
  assumes "consuming this" "ready this b" "16 * length toks + 1 \<le> Suc b"
  shows "returns (parse_args_body this toks)"
  using assms(3) unfolding parse_args_body_def
  by (auto intro!: bind_returns readyD [OF assms(2)] simp: cursor_returns params_loop_returns
      split: if_splits prod.splits option.splits Expr.splits
      dest!: cursor_Ok consumingD [OF assms(1)]; linarith)

lemma parse_arguments_list_returns:
  assumes "consuming this" "ready this b" "16 * length toks + 8 \<le> Suc b"
  shows "returns (parse_arguments_list_body this toks)"
  using assms(3) unfolding parse_arguments_list_body_def
  by (auto intro!: bind_returns readyD [OF assms(2)] simp: cursor_returns params_loop_returns
      split: if_splits prod.splits option.splits Expr.splits
      dest!: cursor_Ok consumingD [OF assms(1)]; linarith)

lemma arguments_loop_returns:
  assumes "consuming this" "ready this b" "16 * length toks + 1 \<le> Suc b"
  shows "returns (arguments_loop_body this x toks)"
  using assms(3) unfolding arguments_loop_body_def
  by (auto intro!: bind_returns readyD [OF assms(2)] simp: cursor_returns params_loop_returns
      split: if_splits prod.splits option.splits Expr.splits
      dest!: cursor_Ok consumingD [OF assms(1)]; linarith)

lemma parse_member_expr_returns:
  assumes "consuming this" "ready this b" "16 * length toks + 2 \<le> Suc b"
  shows "returns (parse_member_expr_body this toks)"
  using assms(3) unfolding parse_member_expr_body_def
  by (auto intro!: bind_returns readyD [OF assms(2)] simp: cursor_returns params_loop_returns
      split: if_splits prod.splits option.splits Expr.splits
      dest!: cursor_Ok consumingD [OF assms(1)]; linarith)

lemma member_loop_returns:
  assumes "consuming this" "ready this b" "16 * length toks + 1 \<le> Suc b"
  shows "returns (member_loop_body this x toks)"
  using assms(3) unfolding member_loop_body_def
  by (auto intro!: bind_returns readyD [OF assms(2)] simp: cursor_returns params_loop_returns
      split: if_splits prod.splits option.splits Expr.splits
      dest!: cursor_Ok consumingD [OF assms(1)]; linarith)

lemma parse_primary_expr_returns:
  assumes "consuming this" "ready this b" "16 * length toks + 1 \<le> Suc b"
  shows "returns (parse_primary_expr_body this toks)"
  using assms(3) unfolding parse_primary_expr_body_def
  by (auto intro!: bind_returns readyD [OF assms(2)] simp: cursor_returns params_loop_returns
      split: if_splits prod.splits option.splits Expr.splits
      dest!: cursor_Ok consumingD [OF assms(1)]; linarith)

lemmas body_returns =
  parse_stmt_returns stmt_loop_returns parse_if_stmt_returns parse_fn_declaration_returns
  parse_var_declaration_returns parse_expr_returns parse_assignment_expr_returns
  parse_object_expr_returns object_loop_returns parse_additive_expr_returns
  additive_loop_returns parse_multiplicitave_expr_returns multiplicitave_loop_returns
  parse_call_member_expr_returns parse_call_expr_returns parse_args_returns
  parse_arguments_list_returns arguments_loop_returns parse_member_expr_returns
  member_loop_returns parse_primary_expr_returns

lemma ready_parser: "ready (parser n) n"
proof (induction n)
  case 0
  show ?case by (simp add: ready_def)
next
  case (Suc n)
  show ?case
    unfolding ready_def parser_Suc
    by (intro conjI allI impI) (erule body_returns [OF consuming_parser Suc])+
qed

lemma program_loop_consumes:
  "program_loop n body toks = Ok r ts \<Longrightarrow> length ts \<le> length toks"
proof (induction n arbitrary: body toks)
  case 0
  then show ?case by simp
next
  case (Suc n)
  from Suc.prems show ?case
    by (auto elim!: bind_OkE split: if_splits
        dest!: cursor_Ok consumingD [OF consuming_parser] Suc.IH; linarith)
qed

lemma program_loop_returns:
  "16 * length toks + 11 \<le> n \<Longrightarrow> returns (program_loop n body toks)"
proof (induction n arbitrary: body toks)
  case 0
  then show ?case by simp
next
  case (Suc n)
  from Suc.prems show ?case
    by (auto intro!: bind_returns readyD [OF ready_parser] Suc.IH simp: cursor_returns
        split: if_splits dest!: cursor_Ok consumingD [OF consuming_parser]; linarith)
qed


section \<open>The result does not depend on the depth\<close>

lemma extendsD:
  assumes "extends this this'"
  shows "returns (parse_stmt this toks) \<Longrightarrow> parse_stmt this' toks = parse_stmt this toks"
    and "returns (stmt_loop this x1 toks) \<Longrightarrow> stmt_loop this' x1 toks = stmt_loop this x1 toks"
    and "returns (parse_if_stmt this toks) \<Longrightarrow> parse_if_stmt this' toks = parse_if_stmt this toks"
    and "returns (parse_fn_declaration this toks) \<Longrightarrow> parse_fn_declaration this' toks = parse_fn_declaration this toks"
    and "returns (parse_var_declaration this toks) \<Longrightarrow> parse_var_declaration this' toks = parse_var_declaration this toks"
    and "returns (parse_expr this toks) \<Longrightarrow> parse_expr this' toks = parse_expr this toks"
    and "returns (parse_assignment_expr this toks) \<Longrightarrow> parse_assignment_expr this' toks = parse_assignment_expr this toks"
    and "returns (parse_object_expr this toks) \<Longrightarrow> parse_object_expr this' toks = parse_object_expr this toks"
    and "returns (object_loop this x8 toks) \<Longrightarrow> object_loop this' x8 toks = object_loop this x8 toks"
    and "returns (parse_additive_expr this toks) \<Longrightarrow> parse_additive_expr this' toks = parse_additive_expr this toks"
    and "returns (additive_loop this x10 toks) \<Longrightarrow> additive_loop this' x10 toks = additive_loop this x10 toks"
    and "returns (parse_multiplicitave_expr this toks) \<Longrightarrow> parse_multiplicitave_expr this' toks = parse_multiplicitave_expr this toks"
    and "returns (multiplicitave_loop this x12 toks) \<Longrightarrow> multiplicitave_loop this' x12 toks = multiplicitave_loop this x12 toks"
    and "returns (parse_call_member_expr this toks) \<Longrightarrow> parse_call_member_expr this' toks = parse_call_member_expr this toks"
    and "returns (parse_call_expr this x14 toks) \<Longrightarrow> parse_call_expr this' x14 toks = parse_call_expr this x14 toks"
    and "returns (parse_args this toks) \<Longrightarrow> parse_args this' toks = parse_args this toks"
    and "returns (parse_arguments_list this toks) \<Longrightarrow> parse_arguments_list this' toks = parse_arguments_list this toks"
    and "returns (arguments_loop this x17 toks) \<Longrightarrow> arguments_loop this' x17 toks = arguments_loop this x17 toks"
    and "returns (parse_member_expr this toks) \<Longrightarrow> parse_member_expr this' toks = parse_member_expr this toks"
    and "returns (member_loop this x19 toks) \<Longrightarrow> member_loop this' x19 toks = member_loop this x19 toks"
    and "returns (parse_primary_expr this toks) \<Longrightarrow> parse_primary_expr this' toks = parse_primary_expr this toks"
  using assms by (simp_all add: extends_def)

lemma bind_extends:
  assumes "returns (bind m k)"
    and "returns m \<Longrightarrow> m' = m"
    and "\<And>a ts. m = Ok a ts \<Longrightarrow> returns (k a ts) \<Longrightarrow> k' a ts = k a ts"
  shows "bind m' k' = bind m k"
  using assms by (cases m) simp_all

lemma parse_stmt_extends:
  assumes "extends this this'" "returns (parse_stmt_body this toks)"
  shows "parse_stmt_body this' toks = parse_stmt_body this toks"
  using assms(2) unfolding parse_stmt_body_def
  by (auto elim!: bind_extends split: if_splits prod.splits option.splits Expr.splits
      simp: extendsD [OF assms(1)])

lemma stmt_loop_extends:
  assumes "extends this this'" "returns (stmt_loop_body this x toks)"
  shows "stmt_loop_body this' x toks = stmt_loop_body this x toks"
  using assms(2) unfolding stmt_loop_body_def
  by (auto elim!: bind_extends split: if_splits prod.splits option.splits Expr.splits
      simp: extendsD [OF assms(1)])

lemma parse_if_stmt_extends:
  assumes "extends this this'" "returns (parse_if_stmt_body this toks)"
  shows "parse_if_stmt_body this' toks = parse_if_stmt_body this toks"
  using assms(2) unfolding parse_if_stmt_body_def
  by (auto elim!: bind_extends split: if_splits prod.splits option.splits Expr.splits
      simp: extendsD [OF assms(1)])

lemma parse_fn_declaration_extends:
  assumes "extends this this'" "returns (parse_fn_declaration_body this toks)"
  shows "parse_fn_declaration_body this' toks = parse_fn_declaration_body this toks"
  using assms(2) unfolding parse_fn_declaration_body_def
  by (auto elim!: bind_extends split: if_splits prod.splits option.splits Expr.splits
      simp: extendsD [OF assms(1)])

lemma parse_var_declaration_extends:
  assumes "extends this this'" "returns (parse_var_declaration_body this toks)"
  shows "parse_var_declaration_body this' toks = parse_var_declaration_body this toks"
  using assms(2) unfolding parse_var_declaration_body_def
  by (auto elim!: bind_extends split: if_splits prod.splits option.splits Expr.splits
      simp: extendsD [OF assms(1)])

lemma parse_expr_extends:
  assumes "extends this this'" "returns (parse_expr_body this toks)"
  shows "parse_expr_body this' toks = parse_expr_body this toks"
  using assms(2) unfolding parse_expr_body_def
  by (auto elim!: bind_extends split: if_splits prod.splits option.splits Expr.splits
      simp: extendsD [OF assms(1)])

lemma parse_assignment_expr_extends:
  assumes "extends this this'" "returns (parse_assignment_expr_body this toks)"
  shows "parse_assignment_expr_body this' toks = parse_assignment_expr_body this toks"
  using assms(2) unfolding parse_assignment_expr_body_def
  by (auto elim!: bind_extends split: if_splits prod.splits option.splits Expr.splits
      simp: extendsD [OF assms(1)])

lemma parse_object_expr_extends:
  assumes "extends this this'" "returns (parse_object_expr_body this toks)"
  shows "parse_object_expr_body this' toks = parse_object_expr_body this toks"
  using assms(2) unfolding parse_object_expr_body_def
  by (auto elim!: bind_extends split: if_splits prod.splits option.splits Expr.splits
      simp: extendsD [OF assms(1)])

lemma object_loop_extends:
  assumes "extends this this'" "returns (object_loop_body this x toks)"
  shows "object_loop_body this' x toks = object_loop_body this x toks"
  using assms(2) unfolding object_loop_body_def
  by (auto elim!: bind_extends split: if_splits prod.splits option.splits Expr.splits
      simp: extendsD [OF assms(1)])

lemma parse_additive_expr_extends:
  assumes "extends this this'" "returns (parse_additive_expr_body this toks)"
  shows "parse_additive_expr_body this' toks = parse_additive_expr_body this toks"
  using assms(2) unfolding parse_additive_expr_body_def
  by (auto elim!: bind_extends split: if_splits prod.splits option.splits Expr.splits
      simp: extendsD [OF assms(1)])

lemma additive_loop_extends:
  assumes "extends this this'" "returns (additive_loop_body this x toks)"
  shows "additive_loop_body this' x toks = additive_loop_body this x toks"
  using assms(2) unfolding additive_loop_body_def
  by (auto elim!: bind_extends split: if_splits prod.splits option.splits Expr.splits
      simp: extendsD [OF assms(1)])

lemma parse_multiplicitave_expr_extends:
  assumes "extends this this'" "returns (parse_multiplicitave_expr_body this toks)"
  shows "parse_multiplicitave_expr_body this' toks = parse_multiplicitave_expr_body this toks"
  using assms(2) unfolding parse_multiplicitave_expr_body_def
  by (auto elim!: bind_extends split: if_splits prod.splits option.splits Expr.splits
      simp: extendsD [OF assms(1)])

lemma multiplicitave_loop_extends:
  assumes "extends this this'" "returns (multiplicitave_loop_body this x toks)"
  shows "multiplicitave_loop_body this' x toks = multiplicitave_loop_body this x toks"
  using assms(2) unfolding multiplicitave_loop_body_def
  by (auto elim!: bind_extends split: if_splits prod.splits option.splits Expr.splits
      simp: extendsD [OF assms(1)])

lemma parse_call_member_expr_extends:
  assumes "extends this this'" "returns (parse_call_member_expr_body this toks)"
  shows "parse_call_member_expr_body this' toks = parse_call_member_expr_body this toks"
  using assms(2) unfolding parse_call_member_expr_body_def
  by (auto elim!: bind_extends split: if_splits prod.splits option.splits Expr.splits
      simp: extendsD [OF assms(1)])

lemma parse_call_expr_extends:
  assumes "extends this this'" "returns (parse_call_expr_body this x toks)"
  shows "parse_call_expr_body this' x toks = parse_call_expr_body this x toks"
  using assms(2) unfolding parse_call_expr_body_def
  by (auto elim!: bind_extends split: if_splits prod.splits option.splits Expr.splits
      simp: extendsD [OF assms(1)])

lemma parse_args_extends:
  assumes "extends this this'" "returns (parse_args_body this toks)"
  shows "parse_args_body this' toks = parse_args_body this toks"
  using assms(2) unfolding parse_args_body_def
  by (auto elim!: bind_extends split: if_splits prod.splits option.splits Expr.splits
      simp: extendsD [OF assms(1)])

lemma parse_arguments_list_extends:
  assumes "extends this this'" "returns (parse_arguments_list_body this toks)"
  shows "parse_arguments_list_body this' toks = parse_arguments_list_body this toks"
  using assms(2) unfolding parse_arguments_list_body_def
  by (auto elim!: bind_extends split: if_splits prod.splits option.splits Expr.splits
      simp: extendsD [OF assms(1)])

lemma arguments_loop_extends:
  assumes "extends this this'" "returns (arguments_loop_body this x toks)"
  shows "arguments_loop_body this' x toks = arguments_loop_body this x toks"
  using assms(2) unfolding arguments_loop_body_def
  by (auto elim!: bind_extends split: if_splits prod.splits option.splits Expr.splits
      simp: extendsD [OF assms(1)])

lemma parse_member_expr_extends:
  assumes "extends this this'" "returns (parse_member_expr_body this toks)"
  shows "parse_member_expr_body this' toks = parse_member_expr_body this toks"
  using assms(2) unfolding parse_member_expr_body_def
  by (auto elim!: bind_extends split: if_splits prod.splits option.splits Expr.splits
      simp: extendsD [OF assms(1)])

lemma member_loop_extends:
  assumes "extends this this'" "returns (member_loop_body this x toks)"
  shows "member_loop_body this' x toks = member_loop_body this x toks"
  using assms(2) unfolding member_loop_body_def
  by (auto elim!: bind_extends split: if_splits prod.splits option.splits Expr.splits
      simp: extendsD [OF assms(1)])

lemma parse_primary_expr_extends:
  assumes "extends this this'" "returns (parse_primary_expr_body this toks)"
  shows "parse_primary_expr_body this' toks = parse_primary_expr_body this toks"
  using assms(2) unfolding parse_primary_expr_body_def
  by (auto elim!: bind_extends split: if_splits prod.splits option.splits Expr.splits
      simp: extendsD [OF assms(1)])

lemmas body_extends =
  parse_stmt_extends stmt_loop_extends parse_if_stmt_extends parse_fn_declaration_extends
  parse_var_declaration_extends parse_expr_extends parse_assignment_expr_extends
  parse_object_expr_extends object_loop_extends parse_additive_expr_extends
  additive_loop_extends parse_multiplicitave_expr_extends multiplicitave_loop_extends
  parse_call_member_expr_extends parse_call_expr_extends parse_args_extends
  parse_arguments_list_extends arguments_loop_extends parse_member_expr_extends
  member_loop_extends parse_primary_expr_extends

lemma extends_Suc: "extends (parser n) (parser (Suc n))"
proof (induction n)
  case 0
  show ?case by (simp add: extends_def parser_0)
next
  case (Suc n)
  show ?case
    unfolding extends_def parser_Suc
    by (intro conjI allI impI) (erule body_extends [OF Suc])+
qed

lemma extends_refl: "extends this this"
  by (simp add: extends_def)

lemma extends_trans:
  assumes "extends this this'" "extends this' this''"
  shows "extends this this''"
  unfolding extends_def
  by (intro conjI allI impI)
    (simp_all add: extendsD [OF assms(1)] extendsD [OF assms(2)])

lemma extends_add: "extends (parser n) (parser (n + k))"
proof (induction k)
  case 0
  show ?case by (simp add: extends_refl)
next
  case (Suc k)
  from Suc extends_Suc [of "n + k"] show ?case
    by (simp add: extends_trans)
qed

lemma program_loop_add:
  "returns (program_loop n body toks) \<Longrightarrow>
     program_loop (n + k) body toks = program_loop n body toks"
proof (induction n arbitrary: body toks)
  case 0
  then show ?case by simp
next
  case (Suc n)
  from Suc.prems show ?case
    by (auto elim!: bind_extends split: if_splits
        simp: extendsD [OF extends_add] Suc.IH)
qed

lemma produceAST_fuel_of:
  assumes "fuel_of toks \<le> n"
  shows "produceAST n toks = parse toks"
proof -
  from assms obtain k where n: "n = fuel_of toks + k"
    using le_Suc_ex by blast
  have "returns (program_loop (fuel_of toks) [] toks)"
    by (rule program_loop_returns) (simp add: fuel_of_def)
  then show ?thesis
    unfolding n parse_def produceAST_def by (simp add: program_loop_add)
qed

text \<open>
  C8. The parse of any token sequence terminates, returning a program or an error: the depth
  \<open>fuel_of toks\<close> is never exhausted, and any larger depth gives the same outcome. A
  statement or an expression that is parsed to a value has consumed at least one token, and
  so has every other production (\<open>consuming\<close>); the loops stop because each iteration
  consumes.
\<close>

theorem parse_terminates:
  "returns (parse toks)
   \<and> (fuel_of toks \<le> n \<longrightarrow>
        produceAST n toks = parse toks
        \<and> shrinks (length toks) (parse_stmt (parser n) toks)
        \<and> shrinks (length toks) (parse_expr (parser n) toks))
   \<and> consuming (parser n)"
proof -
  have "returns (program_loop (fuel_of toks) [] toks)"
    by (rule program_loop_returns) (simp add: fuel_of_def)
  then have prog: "returns (parse toks)"
    by (cases "program_loop (fuel_of toks) [] toks") (simp_all add: parse_def produceAST_def)
  have stmt: "shrinks (length toks) (parse_stmt (parser n) toks)" if "fuel_of toks \<le> n"
  proof -
    from that have "16 * length toks + 9 \<le> n" by (simp add: fuel_of_def)
    then have "returns (parse_stmt (parser n) toks)" by (rule readyD [OF ready_parser])
    then show ?thesis
      using consumingD(1) [OF consuming_parser, of n toks]
      by (cases "parse_stmt (parser n) toks") simp_all
  qed
  have expr: "shrinks (length toks) (parse_expr (parser n) toks)" if "fuel_of toks \<le> n"
  proof -
    from that have "16 * length toks + 8 \<le> n" by (simp add: fuel_of_def)
    then have "returns (parse_expr (parser n) toks)" by (rule readyD [OF ready_parser])
    then show ?thesis
      using consumingD(6) [OF consuming_parser, of n toks]
      by (cases "parse_expr (parser n) toks") simp_all
  qed
  from prog produceAST_fuel_of [of toks n] stmt expr consuming_parser [of n]
  show ?thesis by blast
qed

theorem parse_terminates_witness:
  "fuel_of tokens_1_plus_2_times_3 \<le> 200
   \<and> parse_stmt (parser 200) tokens_1_plus_2_times_3 =
       Ok (ExprStmt
             (BinaryExpr (NumericLiteral (Exact 1))
                (BinaryExpr (NumericLiteral (Exact 2)) (NumericLiteral (Exact 3)) ''*'') ''+''))
          [EOF_token]
   \<and> produceAST 200 tokens_1_plus_2_times_3 = parse tokens_1_plus_2_times_3
   \<and> shrinks (length tokens_1_plus_2_times_3) (parse_stmt (parser 200) tokens_1_plus_2_times_3)
   \<and> length [EOF_token] < length tokens_1_plus_2_times_3"
proof -
  have fuel: "fuel_of tokens_1_plus_2_times_3 \<le> 200"
    by (simp add: fuel_of_def input_defs)
  have run: "parse_stmt (parser 200) tokens_1_plus_2_times_3 =
       Ok (ExprStmt
             (BinaryExpr (NumericLiteral (Exact 1))
                (BinaryExpr (NumericLiteral (Exact 2)) (NumericLiteral (Exact 3)) ''*'') ''+''))
          [EOF_token]"
    by (simp add: input_defs run_simps parseFloat_digit cong: bind_weak_cong)
  from parse_terminates [of tokens_1_plus_2_times_3 200] fuel
  have "produceAST 200 tokens_1_plus_2_times_3 = parse tokens_1_plus_2_times_3"
    and "shrinks (length tokens_1_plus_2_times_3)
           (parse_stmt (parser 200) tokens_1_plus_2_times_3)"
    and "consuming (parser 200)"
    by blast+
  with fuel run consumingD(1) [of "parser 200" tokens_1_plus_2_times_3 _ "[EOF_token]"]
  show ?thesis by blast
qed

section \<open>Results at a larger depth\<close>

text \<open>
  A value returned at some depth is returned at every larger depth, and a method that
  returns a value was not run at depth 0.
\<close>

lemma extends_le: "n \<le> m \<Longrightarrow> extends (parser n) (parser m)"
  using extends_add [of n "m - n"] by simp

lemma parser_lift:
  assumes "n \<le> m"
  shows "parse_stmt (parser n) toks = Ok a0 ts \<Longrightarrow> parse_stmt (parser m) toks = Ok a0 ts"
    and "stmt_loop (parser n) x1 toks = Ok a1 ts \<Longrightarrow> stmt_loop (parser m) x1 toks = Ok a1 ts"
    and "parse_if_stmt (parser n) toks = Ok a2 ts \<Longrightarrow> parse_if_stmt (parser m) toks = Ok a2 ts"
    and "parse_fn_declaration (parser n) toks = Ok a3 ts \<Longrightarrow> parse_fn_declaration (parser m) toks = Ok a3 ts"
    and "parse_var_declaration (parser n) toks = Ok a4 ts \<Longrightarrow> parse_var_declaration (parser m) toks = Ok a4 ts"
    and "parse_expr (parser n) toks = Ok a5 ts \<Longrightarrow> parse_expr (parser m) toks = Ok a5 ts"
    and "parse_assignment_expr (parser n) toks = Ok a6 ts \<Longrightarrow> parse_assignment_expr (parser m) toks = Ok a6 ts"
    and "parse_object_expr (parser n) toks = Ok a7 ts \<Longrightarrow> parse_object_expr (parser m) toks = Ok a7 ts"
    and "object_loop (parser n) x8 toks = Ok a8 ts \<Longrightarrow> object_loop (parser m) x8 toks = Ok a8 ts"
    and "parse_additive_expr (parser n) toks = Ok a9 ts \<Longrightarrow> parse_additive_expr (parser m) toks = Ok a9 ts"
    and "additive_loop (parser n) x10 toks = Ok a10 ts \<Longrightarrow> additive_loop (parser m) x10 toks = Ok a10 ts"
    and "parse_multiplicitave_expr (parser n) toks = Ok a11 ts \<Longrightarrow> parse_multiplicitave_expr (parser m) toks = Ok a11 ts"
    and "multiplicitave_loop (parser n) x12 toks = Ok a12 ts \<Longrightarrow> multiplicitave_loop (parser m) x12 toks = Ok a12 ts"
    and "parse_call_member_expr (parser n) toks = Ok a13 ts \<Longrightarrow> parse_call_member_expr (parser m) toks = Ok a13 ts"
    and "parse_call_expr (parser n) x14 toks = Ok a14 ts \<Longrightarrow> parse_call_expr (parser m) x14 toks = Ok a14 ts"
    and "parse_args (parser n) toks = Ok a15 ts \<Longrightarrow> parse_args (parser m) toks = Ok a15 ts"
    and "parse_arguments_list (parser n) toks = Ok a16 ts \<Longrightarrow> parse_arguments_list (parser m) toks = Ok a16 ts"
    and "arguments_loop (parser n) x17 toks = Ok a17 ts \<Longrightarrow> arguments_loop (parser m) x17 toks = Ok a17 ts"
    and "parse_member_expr (parser n) toks = Ok a18 ts \<Longrightarrow> parse_member_expr (parser m) toks = Ok a18 ts"
    and "member_loop (parser n) x19 toks = Ok a19 ts \<Longrightarrow> member_loop (parser m) x19 toks = Ok a19 ts"
    and "parse_primary_expr (parser n) toks = Ok a20 ts \<Longrightarrow> parse_primary_expr (parser m) toks = Ok a20 ts"
  by (simp_all add: extendsD [OF extends_le [OF assms]])


section \<open>Binary operators\<close>

text \<open>
  One turn of each operator loop, and its exit.
\<close>

lemma additive_loop_step:
  "additive_operator t \<Longrightarrow>
     additive_loop (parser (Suc n)) left (t # ts) =
       bind (parse_multiplicitave_expr (parser n) ts)
         (\<lambda>right ts1. additive_loop (parser n) (BinaryExpr left right (value t)) ts1)"
  by (simp add: parser_Suc additive_loop_body_def cursor_defs additive_operator_def)

lemma additive_loop_exit:
  "\<not> additive_operator t \<Longrightarrow> additive_loop (parser (Suc n)) left (t # ts) = Ok left (t # ts)"
  by (auto simp: parser_Suc additive_loop_body_def cursor_defs additive_operator_def)

lemma multiplicitave_loop_step:
  "multiplicative_operator t \<Longrightarrow>
     multiplicitave_loop (parser (Suc n)) left (t # ts) =
       bind (parse_call_member_expr (parser n) ts)
         (\<lambda>right ts1. multiplicitave_loop (parser n) (BinaryExpr left right (value t)) ts1)"
  by (simp add: parser_Suc multiplicitave_loop_body_def cursor_defs multiplicative_operator_def)

lemma multiplicitave_loop_exit:
  "\<not> multiplicative_operator t \<Longrightarrow>
     multiplicitave_loop (parser (Suc n)) left (t # ts) = Ok left (t # ts)"
  by (simp add: parser_Suc multiplicitave_loop_body_def cursor_defs multiplicative_operator_def)

lemma additive_not_multiplicative: "additive_operator t \<Longrightarrow> \<not> multiplicative_operator t"
  by (auto simp: additive_operator_def multiplicative_operator_def)

text \<open>
  C6. Additive operators associate to the left. Take any three operands, that is any input
  on which \<open>parse_multiplicitave_expr\<close> returns \<open>a\<close>, then after an additive operator \<open>b\<close>,
  then after a second additive operator \<open>c\<close>, and then stops before a token that is no
  additive operator: \<open>parse_additive_expr\<close> returns the node of the second operator whose
  left operand is the node of the first operator over \<open>a\<close> and \<open>b\<close>, and whose right operand
  is \<open>c\<close>. So \<^verbatim>\<open>1 - 2 - 3\<close> parses to the difference of (the difference of 1 and 2)
  and 3.
\<close>

theorem additive_left_associative:
  "(parse_multiplicitave_expr (parser n) toks = Ok a (op1 # ts1) \<and> additive_operator op1
      \<and> parse_multiplicitave_expr (parser n) ts1 = Ok b (op2 # ts2) \<and> additive_operator op2
      \<and> parse_multiplicitave_expr (parser n) ts2 = Ok c (t # ts3) \<and> \<not> additive_operator t
      \<and> n + 4 \<le> m
    \<longrightarrow> parse_additive_expr (parser m) toks =
          Ok (BinaryExpr (BinaryExpr a b (value op1)) c (value op2)) (t # ts3))
   \<and> parse tokens_1_minus_2_minus_3 =
     Ok (Program [ExprStmt
           (BinaryExpr
              (BinaryExpr (NumericLiteral (Exact 1)) (NumericLiteral (Exact 2)) ''-'')
              (NumericLiteral (Exact 3)) ''-'')])
        [EOF_token]"
proof -
  have general: "parse_additive_expr (parser m) toks =
          Ok (BinaryExpr (BinaryExpr a b (value op1)) c (value op2)) (t # ts3)"
    if a: "parse_multiplicitave_expr (parser n) toks = Ok a (op1 # ts1)"
      and op1: "additive_operator op1"
      and b: "parse_multiplicitave_expr (parser n) ts1 = Ok b (op2 # ts2)"
      and op2: "additive_operator op2"
      and c: "parse_multiplicitave_expr (parser n) ts2 = Ok c (t # ts3)"
      and t: "\<not> additive_operator t"
      and m: "n + 4 \<le> m"
  proof -
    note lift = parser_lift(12) [OF _ a] parser_lift(12) [OF _ b] parser_lift(12) [OF _ c]
    have "parse_additive_expr (parser (Suc (Suc (Suc (Suc n))))) toks =
            Ok (BinaryExpr (BinaryExpr a b (value op1)) c (value op2)) (t # ts3)"
      using op1 op2 t
      by (simp add: parser_Suc(10) parse_additive_expr_body_def lift
          additive_loop_step additive_loop_exit)
    with parser_lift(10) [of "Suc (Suc (Suc (Suc n)))" m] m show ?thesis
      by simp
  qed
  have "parse tokens_1_minus_2_minus_3 =
     Ok (Program [ExprStmt
           (BinaryExpr
              (BinaryExpr (NumericLiteral (Exact 1)) (NumericLiteral (Exact 2)) ''-'')
              (NumericLiteral (Exact 3)) ''-'')])
        [EOF_token]"
    by (simp add: input_defs run_simps parseFloat_digit cong: bind_weak_cong)
  with general show ?thesis by blast
qed

theorem additive_left_associative_witness:
  "parse_multiplicitave_expr (parser 10) [tok TokenType_Number ''1'',
    tok TokenType_BinaryOperator ''-'', tok TokenType_Number ''2'',
      tok TokenType_BinaryOperator ''-'', tok TokenType_Number ''3'', EOF_token] =
       Ok (NumericLiteral (Exact 1)) [tok TokenType_BinaryOperator ''-'',
         tok TokenType_Number ''2'', tok TokenType_BinaryOperator ''-'',
           tok TokenType_Number ''3'', EOF_token]
   \<and> additive_operator (tok TokenType_BinaryOperator ''-'')
   \<and> parse_multiplicitave_expr (parser 10) [tok TokenType_Number ''2'',
     tok TokenType_BinaryOperator ''-'', tok TokenType_Number ''3'', EOF_token] =
       Ok (NumericLiteral (Exact 2)) [tok TokenType_BinaryOperator ''-'',
         tok TokenType_Number ''3'', EOF_token]
   \<and> parse_multiplicitave_expr (parser 10) [tok TokenType_Number ''3'', EOF_token] =
       Ok (NumericLiteral (Exact 3)) [EOF_token]
   \<and> \<not> additive_operator EOF_token
   \<and> (10::nat) + 4 \<le> 20
   \<and> parse_additive_expr (parser 20) [tok TokenType_Number ''1'',
     tok TokenType_BinaryOperator ''-'', tok TokenType_Number ''2'',
       tok TokenType_BinaryOperator ''-'', tok TokenType_Number ''3'', EOF_token] =
       Ok (BinaryExpr (BinaryExpr (NumericLiteral (Exact 1)) (NumericLiteral (Exact 2)) ''-'')
         (NumericLiteral (Exact 3)) ''-'') [EOF_token]"
proof -
  have a: "parse_multiplicitave_expr (parser 10) [tok TokenType_Number ''1'',
    tok TokenType_BinaryOperator ''-'', tok TokenType_Number ''2'',
      tok TokenType_BinaryOperator ''-'', tok TokenType_Number ''3'', EOF_token] =
       Ok (NumericLiteral (Exact 1)) [tok TokenType_BinaryOperator ''-'',
         tok TokenType_Number ''2'', tok TokenType_BinaryOperator ''-'',
           tok TokenType_Number ''3'', EOF_token]"
    by (simp add: input_defs run_simps parseFloat_digit cong: bind_weak_cong)
  have op: "additive_operator (tok TokenType_BinaryOperator ''-'')"
    by (simp add: additive_operator_def multiplicative_operator_def statement_keyword_def
        equality_token_def EOF_token_def tok_def)
  have b: "parse_multiplicitave_expr (parser 10) [tok TokenType_Number ''2'',
    tok TokenType_BinaryOperator ''-'', tok TokenType_Number ''3'', EOF_token] =
       Ok (NumericLiteral (Exact 2)) [tok TokenType_BinaryOperator ''-'',
         tok TokenType_Number ''3'', EOF_token]"
    by (simp add: input_defs run_simps parseFloat_digit cong: bind_weak_cong)
  have c: "parse_multiplicitave_expr (parser 10) [tok TokenType_Number ''3'', EOF_token] =
       Ok (NumericLiteral (Exact 3)) [EOF_token]"
    by (simp add: input_defs run_simps parseFloat_digit cong: bind_weak_cong)
  have t: "\<not> additive_operator EOF_token"
    by (simp add: additive_operator_def multiplicative_operator_def statement_keyword_def
        equality_token_def EOF_token_def tok_def)
  have le: "(10::nat) + 4 \<le> 20"
    by simp
  have val: "value (tok TokenType_BinaryOperator ''-'') = ''-''"
    by (simp add: tok_def)
  from additive_left_associative [where n = 10
      and m = 20
      and toks = "[tok TokenType_Number ''1'', tok TokenType_BinaryOperator ''-'',
        tok TokenType_Number ''2'', tok TokenType_BinaryOperator ''-'',
          tok TokenType_Number ''3'', EOF_token]"
      and a = "NumericLiteral (Exact 1)"
      and ?op1.0 = "tok TokenType_BinaryOperator ''-''"
      and ?ts1.0 = "[tok TokenType_Number ''2'', tok TokenType_BinaryOperator ''-'',
        tok TokenType_Number ''3'', EOF_token]"
      and b = "NumericLiteral (Exact 2)"
      and ?op2.0 = "tok TokenType_BinaryOperator ''-''"
      and ?ts2.0 = "[tok TokenType_Number ''3'', EOF_token]"
      and c = "NumericLiteral (Exact 3)"
      and t = EOF_token
      and ?ts3.0 = "[]"]
    a op b c t le
  have run: "parse_additive_expr (parser 20) [tok TokenType_Number ''1'',
    tok TokenType_BinaryOperator ''-'', tok TokenType_Number ''2'',
      tok TokenType_BinaryOperator ''-'', tok TokenType_Number ''3'', EOF_token] =
       Ok (BinaryExpr (BinaryExpr (NumericLiteral (Exact 1)) (NumericLiteral (Exact 2)) ''-'')
         (NumericLiteral (Exact 3)) ''-'') [EOF_token]"
    unfolding val by blast
  from a op b c t le run show ?thesis by blast
qed

text \<open>
  C5. Multiplicative operators bind tighter than additive ones. Take any three operands
  \<open>a\<close>, \<open>b\<close>, \<open>c\<close> of \<open>parse_call_member_expr\<close>. With an additive operator between \<open>a\<close> and
  \<open>b\<close> and a multiplicative one between \<open>b\<close> and \<open>c\<close>, the additive node is the root and
  the multiplicative node over \<open>b\<close> and \<open>c\<close> its right operand; with the multiplicative
  operator first, the additive node is again the root and the multiplicative node over
  \<open>a\<close> and \<open>b\<close> its left operand. So \<^verbatim>\<open>1 + 2 * 3\<close> parses to the sum of 1 and the product
  of 2 and 3, and not to the product of the sum of 1 and 2 with 3.
\<close>

theorem multiplicative_binds_tighter:
  "(parse_call_member_expr (parser n) toks = Ok a (op1 # ts1) \<and> additive_operator op1
      \<and> parse_call_member_expr (parser n) ts1 = Ok b (op2 # ts2) \<and> multiplicative_operator op2
      \<and> parse_call_member_expr (parser n) ts2 = Ok c (t # ts3)
      \<and> \<not> multiplicative_operator t \<and> \<not> additive_operator t \<and> n + 5 \<le> m
    \<longrightarrow> parse_additive_expr (parser m) toks =
          Ok (BinaryExpr a (BinaryExpr b c (value op2)) (value op1)) (t # ts3))
   \<and> (parse_call_member_expr (parser n) toks = Ok a (op1 # ts1) \<and> multiplicative_operator op1
      \<and> parse_call_member_expr (parser n) ts1 = Ok b (op2 # ts2) \<and> additive_operator op2
      \<and> parse_call_member_expr (parser n) ts2 = Ok c (t # ts3)
      \<and> \<not> multiplicative_operator t \<and> \<not> additive_operator t \<and> n + 5 \<le> m
    \<longrightarrow> parse_additive_expr (parser m) toks =
          Ok (BinaryExpr (BinaryExpr a b (value op1)) c (value op2)) (t # ts3))
   \<and> parse tokens_1_plus_2_times_3 =
     Ok (Program [ExprStmt
           (BinaryExpr (NumericLiteral (Exact 1))
              (BinaryExpr (NumericLiteral (Exact 2)) (NumericLiteral (Exact 3)) ''*'') ''+'')])
        [EOF_token]
   \<and> parse tokens_1_plus_2_times_3 \<noteq>
     Ok (Program [ExprStmt
           (BinaryExpr
              (BinaryExpr (NumericLiteral (Exact 1)) (NumericLiteral (Exact 2)) ''+'')
              (NumericLiteral (Exact 3)) ''*'')])
        [EOF_token]"
proof -
  have right_nested: "parse_additive_expr (parser m) toks =
          Ok (BinaryExpr a (BinaryExpr b c (value op2)) (value op1)) (t # ts3)"
    if a: "parse_call_member_expr (parser n) toks = Ok a (op1 # ts1)"
      and op1: "additive_operator op1"
      and b: "parse_call_member_expr (parser n) ts1 = Ok b (op2 # ts2)"
      and op2: "multiplicative_operator op2"
      and c: "parse_call_member_expr (parser n) ts2 = Ok c (t # ts3)"
      and t: "\<not> multiplicative_operator t" "\<not> additive_operator t"
      and m: "n + 5 \<le> m"
  proof -
    note lift = parser_lift(14) [OF _ a] parser_lift(14) [OF _ b] parser_lift(14) [OF _ c]
    have "parse_additive_expr (parser (Suc (Suc (Suc (Suc (Suc n)))))) toks =
            Ok (BinaryExpr a (BinaryExpr b c (value op2)) (value op1)) (t # ts3)"
      using op1 op2 t additive_not_multiplicative [OF op1]
      by (simp add: parser_Suc(10,12) parse_additive_expr_body_def
          parse_multiplicitave_expr_body_def lift additive_loop_step additive_loop_exit
          multiplicitave_loop_step multiplicitave_loop_exit)
    with parser_lift(10) [of "Suc (Suc (Suc (Suc (Suc n))))" m] m show ?thesis
      by simp
  qed
  have left_nested: "parse_additive_expr (parser m) toks =
          Ok (BinaryExpr (BinaryExpr a b (value op1)) c (value op2)) (t # ts3)"
    if a: "parse_call_member_expr (parser n) toks = Ok a (op1 # ts1)"
      and op1: "multiplicative_operator op1"
      and b: "parse_call_member_expr (parser n) ts1 = Ok b (op2 # ts2)"
      and op2: "additive_operator op2"
      and c: "parse_call_member_expr (parser n) ts2 = Ok c (t # ts3)"
      and t: "\<not> multiplicative_operator t" "\<not> additive_operator t"
      and m: "n + 5 \<le> m"
  proof -
    note lift = parser_lift(14) [OF _ a] parser_lift(14) [OF _ b] parser_lift(14) [OF _ c]
    have "parse_additive_expr (parser (Suc (Suc (Suc (Suc (Suc n)))))) toks =
            Ok (BinaryExpr (BinaryExpr a b (value op1)) c (value op2)) (t # ts3)"
      using op1 op2 t additive_not_multiplicative [OF op2]
      by (simp add: parser_Suc(10,12) parse_additive_expr_body_def
          parse_multiplicitave_expr_body_def lift additive_loop_step additive_loop_exit
          multiplicitave_loop_step multiplicitave_loop_exit)
    with parser_lift(10) [of "Suc (Suc (Suc (Suc (Suc n))))" m] m show ?thesis
      by simp
  qed
  have run: "parse tokens_1_plus_2_times_3 =
     Ok (Program [ExprStmt
           (BinaryExpr (NumericLiteral (Exact 1))
              (BinaryExpr (NumericLiteral (Exact 2)) (NumericLiteral (Exact 3)) ''*'') ''+'')])
        [EOF_token]"
    by (simp add: input_defs run_simps parseFloat_digit cong: bind_weak_cong)
  from right_nested left_nested run show ?thesis by simp
qed

theorem multiplicative_binds_tighter_witness:
  "parse_call_member_expr (parser 10) [tok TokenType_Number ''1'',
    tok TokenType_BinaryOperator ''+'', tok TokenType_Number ''2'',
      tok TokenType_BinaryOperator ''*'', tok TokenType_Number ''3'', EOF_token] =
       Ok (NumericLiteral (Exact 1)) [tok TokenType_BinaryOperator ''+'',
         tok TokenType_Number ''2'', tok TokenType_BinaryOperator ''*'',
           tok TokenType_Number ''3'', EOF_token]
   \<and> additive_operator (tok TokenType_BinaryOperator ''+'')
   \<and> parse_call_member_expr (parser 10) [tok TokenType_Number ''2'',
     tok TokenType_BinaryOperator ''*'', tok TokenType_Number ''3'', EOF_token] =
       Ok (NumericLiteral (Exact 2)) [tok TokenType_BinaryOperator ''*'',
         tok TokenType_Number ''3'', EOF_token]
   \<and> multiplicative_operator (tok TokenType_BinaryOperator ''*'')
   \<and> parse_call_member_expr (parser 10) [tok TokenType_Number ''3'', EOF_token] =
       Ok (NumericLiteral (Exact 3)) [EOF_token]
   \<and> \<not> multiplicative_operator EOF_token
   \<and> \<not> additive_operator EOF_token
   \<and> (10::nat) + 5 \<le> 20
   \<and> parse_call_member_expr (parser 10) [tok TokenType_Number ''1'',
     tok TokenType_BinaryOperator ''*'', tok TokenType_Number ''2'',
       tok TokenType_BinaryOperator ''+'', tok TokenType_Number ''3'', EOF_token] =
       Ok (NumericLiteral (Exact 1)) [tok TokenType_BinaryOperator ''*'',
         tok TokenType_Number ''2'', tok TokenType_BinaryOperator ''+'',
           tok TokenType_Number ''3'', EOF_token]
   \<and> parse_call_member_expr (parser 10) [tok TokenType_Number ''2'',
     tok TokenType_BinaryOperator ''+'', tok TokenType_Number ''3'', EOF_token] =
       Ok (NumericLiteral (Exact 2)) [tok TokenType_BinaryOperator ''+'',
         tok TokenType_Number ''3'', EOF_token]
   \<and> parse_additive_expr (parser 20) [tok TokenType_Number ''1'',
     tok TokenType_BinaryOperator ''+'', tok TokenType_Number ''2'',
       tok TokenType_BinaryOperator ''*'', tok TokenType_Number ''3'', EOF_token] =
       Ok (BinaryExpr (NumericLiteral (Exact 1)) (BinaryExpr (NumericLiteral (Exact 2))
         (NumericLiteral (Exact 3)) ''*'') ''+'') [EOF_token]
   \<and> parse_additive_expr (parser 20) [tok TokenType_Number ''1'',
     tok TokenType_BinaryOperator ''*'', tok TokenType_Number ''2'',
       tok TokenType_BinaryOperator ''+'', tok TokenType_Number ''3'', EOF_token] =
       Ok (BinaryExpr (BinaryExpr (NumericLiteral (Exact 1)) (NumericLiteral (Exact 2)) ''*'')
         (NumericLiteral (Exact 3)) ''+'') [EOF_token]"
proof -
  have a1: "parse_call_member_expr (parser 10) [tok TokenType_Number ''1'',
    tok TokenType_BinaryOperator ''+'', tok TokenType_Number ''2'',
      tok TokenType_BinaryOperator ''*'', tok TokenType_Number ''3'', EOF_token] =
       Ok (NumericLiteral (Exact 1)) [tok TokenType_BinaryOperator ''+'',
         tok TokenType_Number ''2'', tok TokenType_BinaryOperator ''*'',
           tok TokenType_Number ''3'', EOF_token]"
    by (simp add: input_defs run_simps parseFloat_digit cong: bind_weak_cong)
  have add: "additive_operator (tok TokenType_BinaryOperator ''+'')"
    by (simp add: additive_operator_def multiplicative_operator_def statement_keyword_def
        equality_token_def EOF_token_def tok_def)
  have b1: "parse_call_member_expr (parser 10) [tok TokenType_Number ''2'',
    tok TokenType_BinaryOperator ''*'', tok TokenType_Number ''3'', EOF_token] =
       Ok (NumericLiteral (Exact 2)) [tok TokenType_BinaryOperator ''*'',
         tok TokenType_Number ''3'', EOF_token]"
    by (simp add: input_defs run_simps parseFloat_digit cong: bind_weak_cong)
  have mul: "multiplicative_operator (tok TokenType_BinaryOperator ''*'')"
    by (simp add: additive_operator_def multiplicative_operator_def statement_keyword_def
        equality_token_def EOF_token_def tok_def)
  have c1: "parse_call_member_expr (parser 10) [tok TokenType_Number ''3'', EOF_token] =
       Ok (NumericLiteral (Exact 3)) [EOF_token]"
    by (simp add: input_defs run_simps parseFloat_digit cong: bind_weak_cong)
  have t1: "\<not> multiplicative_operator EOF_token"
    by (simp add: additive_operator_def multiplicative_operator_def statement_keyword_def
        equality_token_def EOF_token_def tok_def)
  have t2: "\<not> additive_operator EOF_token"
    by (simp add: additive_operator_def multiplicative_operator_def statement_keyword_def
        equality_token_def EOF_token_def tok_def)
  have le: "(10::nat) + 5 \<le> 20"
    by simp
  have a2: "parse_call_member_expr (parser 10) [tok TokenType_Number ''1'',
    tok TokenType_BinaryOperator ''*'', tok TokenType_Number ''2'',
      tok TokenType_BinaryOperator ''+'', tok TokenType_Number ''3'', EOF_token] =
       Ok (NumericLiteral (Exact 1)) [tok TokenType_BinaryOperator ''*'',
         tok TokenType_Number ''2'', tok TokenType_BinaryOperator ''+'',
           tok TokenType_Number ''3'', EOF_token]"
    by (simp add: input_defs run_simps parseFloat_digit cong: bind_weak_cong)
  have b2: "parse_call_member_expr (parser 10) [tok TokenType_Number ''2'',
    tok TokenType_BinaryOperator ''+'', tok TokenType_Number ''3'', EOF_token] =
       Ok (NumericLiteral (Exact 2)) [tok TokenType_BinaryOperator ''+'',
         tok TokenType_Number ''3'', EOF_token]"
    by (simp add: input_defs run_simps parseFloat_digit cong: bind_weak_cong)
  have val: "value (tok TokenType_BinaryOperator ''+'') =
    ''+''" "value (tok TokenType_BinaryOperator ''*'') = ''*''"
    by (simp_all add: tok_def)
  from multiplicative_binds_tighter [where n = 10
      and m = 20
      and toks = "[tok TokenType_Number ''1'', tok TokenType_BinaryOperator ''+'',
        tok TokenType_Number ''2'', tok TokenType_BinaryOperator ''*'',
          tok TokenType_Number ''3'', EOF_token]"
      and a = "NumericLiteral (Exact 1)"
      and ?op1.0 = "tok TokenType_BinaryOperator ''+''"
      and ?ts1.0 = "[tok TokenType_Number ''2'', tok TokenType_BinaryOperator ''*'',
        tok TokenType_Number ''3'', EOF_token]"
      and b = "NumericLiteral (Exact 2)"
      and ?op2.0 = "tok TokenType_BinaryOperator ''*''"
      and ?ts2.0 = "[tok TokenType_Number ''3'', EOF_token]"
      and c = "NumericLiteral (Exact 3)"
      and t = EOF_token
      and ?ts3.0 = "[]"]
    a1 add b1 mul c1 t1 t2 le
  have right_nested: "parse_additive_expr (parser 20) [tok TokenType_Number ''1'',
    tok TokenType_BinaryOperator ''+'', tok TokenType_Number ''2'',
      tok TokenType_BinaryOperator ''*'', tok TokenType_Number ''3'', EOF_token] =
       Ok (BinaryExpr (NumericLiteral (Exact 1)) (BinaryExpr (NumericLiteral (Exact 2))
         (NumericLiteral (Exact 3)) ''*'') ''+'') [EOF_token]"
    unfolding val by blast
  from multiplicative_binds_tighter [where n = 10
      and m = 20
      and toks = "[tok TokenType_Number ''1'', tok TokenType_BinaryOperator ''*'',
        tok TokenType_Number ''2'', tok TokenType_BinaryOperator ''+'',
          tok TokenType_Number ''3'', EOF_token]"
      and a = "NumericLiteral (Exact 1)"
      and ?op1.0 = "tok TokenType_BinaryOperator ''*''"
      and ?ts1.0 = "[tok TokenType_Number ''2'', tok TokenType_BinaryOperator ''+'',
        tok TokenType_Number ''3'', EOF_token]"
      and b = "NumericLiteral (Exact 2)"
      and ?op2.0 = "tok TokenType_BinaryOperator ''+''"
      and ?ts2.0 = "[tok TokenType_Number ''3'', EOF_token]"
      and c = "NumericLiteral (Exact 3)"
      and t = EOF_token
      and ?ts3.0 = "[]"]
    a2 mul b2 add c1 t1 t2 le
  have left_nested: "parse_additive_expr (parser 20) [tok TokenType_Number ''1'',
    tok TokenType_BinaryOperator ''*'', tok TokenType_Number ''2'',
      tok TokenType_BinaryOperator ''+'', tok TokenType_Number ''3'', EOF_token] =
       Ok (BinaryExpr (BinaryExpr (NumericLiteral (Exact 1)) (NumericLiteral (Exact 2)) ''*'')
         (NumericLiteral (Exact 3)) ''+'') [EOF_token]"
    unfolding val by blast
  from a1 add b1 mul c1 t1 t2 le a2 b2 right_nested left_nested show ?thesis by blast
qed

section \<open>Statements\<close>

text \<open>
  A statement starts with a keyword or with the first token of an expression; on any other
  token \<open>parse_stmt\<close> ends in the default branch of \<open>parse_primary_expr\<close>. When a statement
  that parses is followed by such a token, other than the end of the file, the program
  stops there.
\<close>

lemma no_statement_starts_Suc:
  "\<not> starts_statement t \<Longrightarrow>
     parse_stmt (parser (Suc (Suc (Suc (Suc (Suc (Suc (Suc (Suc (Suc n)))))))))) (t # ts) =
       Error (UnexpectedToken t)"
  by (simp add: starts_statement_def statement_keyword_def parser_Suc body_defs cursor_defs
      cong: bind_weak_cong)

lemma no_statement_starts:
  assumes "\<not> starts_statement t" "9 \<le> k"
  shows "parse_stmt (parser k) (t # ts) = Error (UnexpectedToken t)"
proof -
  from assms(2) have "k = Suc (Suc (Suc (Suc (Suc (Suc (Suc (Suc (Suc (k - 9)))))))))"
    by arith
  with no_statement_starts_Suc [OF assms(1), of "k - 9" ts] show ?thesis by simp
qed

lemma statement_starts:
  assumes "parse_stmt (parser k) (t # ts) = Ok s ts'"
  shows "starts_statement t"
proof (rule ccontr)
  assume "\<not> starts_statement t"
  then have "parse_stmt (parser (k + 9)) (t # ts) = Error (UnexpectedToken t)"
    by (rule no_statement_starts) simp
  moreover from assms have "parse_stmt (parser (k + 9)) (t # ts) = Ok s ts'"
    by (rule parser_lift(1) [rotated]) simp
  ultimately show False by simp
qed

lemma program_stops:
  assumes stmt: "\<And>k. N \<le> k \<Longrightarrow> parse_stmt (parser k) (t0 # r) = Ok s (t # ts)"
    and t: "\<not> starts_statement t" "type t \<noteq> TokenType_EOF"
    and m: "N + 11 \<le> m"
  shows "produceAST m (t0 # r) = Error (UnexpectedToken t)"
proof -
  define k where "k = m - 2"
  with m have k: "m = Suc (Suc k)" "N \<le> k" "9 \<le> k"
    by arith+
  have "starts_statement t0"
    using stmt [of N] by (auto dest: statement_starts)
  then have "type t0 \<noteq> TokenType_EOF"
    by (auto simp: starts_statement_def statement_keyword_def)
  then show ?thesis
    using t stmt [of "Suc k"] k
    by (simp add: produceAST_def cursor_defs no_statement_starts)
qed

lemma statement_expected:
  assumes "\<not> starts_statement t" "type t \<noteq> TokenType_EOF"
  shows "program_loop (Suc (Suc (Suc (Suc (Suc (Suc (Suc (Suc (Suc (Suc n)))))))))) body (t # ts) =
           Error (UnexpectedToken t)"
    and "type t \<noteq> TokenType_CloseBrace \<Longrightarrow>
         stmt_loop (parser (Suc (Suc (Suc (Suc (Suc (Suc (Suc (Suc (Suc (Suc n))))))))))) stmts (t # ts) =
           Error (UnexpectedToken t)"
  using assms
  by (simp_all add: no_statement_starts_Suc parser_Suc(2) stmt_loop_body_def cursor_defs)

lemma expression_statement:
  "\<not> statement_keyword t0 \<Longrightarrow>
     parse_stmt (parser (Suc n)) (t0 # r) =
       bind (parse_expr (parser n) (t0 # r)) (\<lambda>e ts. Ok (ExprStmt e) ts)"
  by (simp add: statement_keyword_def parser_Suc parse_stmt_body_def cursor_defs)

lemma declaration_terminator:
  "parse_expr (parser n) ts0 = Ok v (t # ts) \<Longrightarrow>
     parse_var_declaration (parser (Suc n))
        (kw # tok TokenType_Identifier x # tok TokenType_Equals w # ts0) =
       (if type t = TokenType_Semicolon
        then Ok (VarDeclaration x (Some v) (type kw = TokenType_Lock)) ts
        else Error (ExpectFailed ''Variable declaration statment must end with semicolon.''
                      (Some t) TokenType_Semicolon))"
  by (simp add: parser_Suc parse_var_declaration_body_def cursor_defs tok_def)

lemma declaration_needs_semicolon_or_equals:
  "type t \<noteq> TokenType_Semicolon \<Longrightarrow> type t \<noteq> TokenType_Equals \<Longrightarrow>
     parse_var_declaration (parser (Suc n)) (kw # tok TokenType_Identifier x # t # ts) =
       Error (ExpectFailed ''Expected equals token following identifier in var declaration.''
                (Some t) TokenType_Equals)"
  by (simp add: parser_Suc parse_var_declaration_body_def cursor_defs tok_def)

section \<open>Object literals\<close>



lemma object_loop_shorthand_brace:
  "type c = TokenType_CloseBrace \<Longrightarrow>
     object_loop (parser (Suc n)) props (tok TokenType_Identifier k # c # ts) =
       object_loop (parser n) (props @ [Property k None]) (c # ts)"
  by (simp add: parser_Suc object_loop_body_def cursor_defs tok_def)




section \<open>Calls and member accesses\<close>

text \<open>
  What a production starts with, the result of \<open>parse_call_expr\<close>, and the way of a
  result of \<open>parse_call_member_expr\<close> up to the statement.
\<close>

lemma expect_OkD: "expect ty err toks = Ok p ts \<Longrightarrow> toks = p # ts \<and> type p = ty"
  by (auto simp: expect_def eat_def split: list.splits if_splits)










section \<open>Semicolons\<close>

text \<open>
  What a successful cursor operation says about the buffer.
\<close>

lemma at_tok_OkD: "at_tok toks = Ok t ts \<Longrightarrow> ts = toks \<and> (\<exists>r. toks = t # r)"
  by (auto simp: at_tok_def at_def deref_def split: list.splits)

lemma eat_tok_OkD: "eat_tok toks = Ok t ts \<Longrightarrow> toks = t # ts"
  by (auto simp: eat_tok_def eat_def deref_def split: list.splits)

lemma not_eof_OkD: "not_eof toks = Ok b ts \<Longrightarrow> ts = toks \<and> (\<exists>t r. toks = t # r)"
  by (auto simp: not_eof_def at_tok_def at_def deref_def split: list.splits)

lemma eat_Cons: "eat (t # r) = (Some t, r)"
  by (simp add: eat_def)

lemma eat_Nil: "eat [] = (None, [])"
  by (simp add: eat_def)

lemmas cursor_OkD = expect_OkD at_tok_OkD eat_tok_OkD not_eof_OkD params_loop_Ok

text \<open>
  No method of the expression grammar consumes a terminator, by induction on the depth.
\<close>

lemma semicolon_freeD:
  assumes "semicolon_free this"
  shows "parse_expr this toks = Ok a0 ts \<Longrightarrow> terminators ts = terminators toks"
    and "parse_assignment_expr this toks = Ok a1 ts \<Longrightarrow> terminators ts = terminators toks"
    and "parse_object_expr this toks = Ok a2 ts \<Longrightarrow> terminators ts = terminators toks"
    and "object_loop this x3 toks = Ok a3 ts \<Longrightarrow> terminators ts = terminators toks"
    and "parse_additive_expr this toks = Ok a4 ts \<Longrightarrow> terminators ts = terminators toks"
    and "additive_loop this x5 toks = Ok a5 ts \<Longrightarrow> terminators ts = terminators toks"
    and "parse_multiplicitave_expr this toks = Ok a6 ts \<Longrightarrow> terminators ts = terminators toks"
    and "multiplicitave_loop this x7 toks = Ok a7 ts \<Longrightarrow> terminators ts = terminators toks"
    and "parse_call_member_expr this toks = Ok a8 ts \<Longrightarrow> terminators ts = terminators toks"
    and "parse_call_expr this x9 toks = Ok a9 ts \<Longrightarrow> terminators ts = terminators toks"
    and "parse_args this toks = Ok a10 ts \<Longrightarrow> terminators ts = terminators toks"
    and "parse_arguments_list this toks = Ok a11 ts \<Longrightarrow> terminators ts = terminators toks"
    and "arguments_loop this x12 toks = Ok a12 ts \<Longrightarrow> terminators ts = terminators toks"
    and "parse_member_expr this toks = Ok a13 ts \<Longrightarrow> terminators ts = terminators toks"
    and "member_loop this x14 toks = Ok a14 ts \<Longrightarrow> terminators ts = terminators toks"
    and "parse_primary_expr this toks = Ok a15 ts \<Longrightarrow> terminators ts = terminators toks"
  using assms by (simp_all add: semicolon_free_def)

lemma terminators_Cons:
  "terminators (t # r) = (if terminator t then 1 else 0) + terminators r"
  "terminators [] = 0"
  by (simp_all add: terminators_def)

lemma not_terminator:
  "type t \<noteq> TokenType_Semicolon \<Longrightarrow> \<not> terminator t"
  "value t = ''+'' \<Longrightarrow> \<not> terminator t"
  "value t = ''-'' \<Longrightarrow> type t \<noteq> TokenType_EOF \<Longrightarrow> \<not> terminator t"
  "value t = ''/'' \<Longrightarrow> \<not> terminator t"
  "value t = ''*'' \<Longrightarrow> \<not> terminator t"
  "value t = ''%'' \<Longrightarrow> \<not> terminator t"
  by (auto simp: terminator_def additive_operator_def multiplicative_operator_def)

lemma parse_expr_semicolon_free:
  assumes "semicolon_free this" "parse_expr_body this toks = Ok res ts"
  shows "terminators ts = terminators toks"
  using assms(2) unfolding parse_expr_body_def
  by (auto elim!: bind_OkE split: if_splits prod.splits option.splits Expr.splits
      simp: terminators_Cons not_terminator eat_Cons eat_Nil
      dest!: cursor_OkD semicolon_freeD [OF assms(1)])

lemma parse_assignment_expr_semicolon_free:
  assumes "semicolon_free this" "parse_assignment_expr_body this toks = Ok res ts"
  shows "terminators ts = terminators toks"
  using assms(2) unfolding parse_assignment_expr_body_def
  by (auto elim!: bind_OkE split: if_splits prod.splits option.splits Expr.splits
      simp: terminators_Cons not_terminator eat_Cons eat_Nil
      dest!: cursor_OkD semicolon_freeD [OF assms(1)])

lemma parse_object_expr_semicolon_free:
  assumes "semicolon_free this" "parse_object_expr_body this toks = Ok res ts"
  shows "terminators ts = terminators toks"
  using assms(2) unfolding parse_object_expr_body_def
  by (auto elim!: bind_OkE split: if_splits prod.splits option.splits Expr.splits
      simp: terminators_Cons not_terminator eat_Cons eat_Nil
      dest!: cursor_OkD semicolon_freeD [OF assms(1)])

lemma object_loop_semicolon_free:
  assumes "semicolon_free this" "object_loop_body this x toks = Ok res ts"
  shows "terminators ts = terminators toks"
  using assms(2) unfolding object_loop_body_def
  by (auto elim!: bind_OkE split: if_splits prod.splits option.splits Expr.splits
      simp: terminators_Cons not_terminator eat_Cons eat_Nil
      dest!: cursor_OkD semicolon_freeD [OF assms(1)])

lemma parse_additive_expr_semicolon_free:
  assumes "semicolon_free this" "parse_additive_expr_body this toks = Ok res ts"
  shows "terminators ts = terminators toks"
  using assms(2) unfolding parse_additive_expr_body_def
  by (auto elim!: bind_OkE split: if_splits prod.splits option.splits Expr.splits
      simp: terminators_Cons not_terminator eat_Cons eat_Nil
      dest!: cursor_OkD semicolon_freeD [OF assms(1)])

lemma additive_loop_semicolon_free:
  assumes "semicolon_free this" "additive_loop_body this x toks = Ok res ts"
  shows "terminators ts = terminators toks"
  using assms(2) unfolding additive_loop_body_def
  by (auto elim!: bind_OkE split: if_splits prod.splits option.splits Expr.splits
      simp: terminators_Cons not_terminator eat_Cons eat_Nil
      dest!: cursor_OkD semicolon_freeD [OF assms(1)])

lemma parse_multiplicitave_expr_semicolon_free:
  assumes "semicolon_free this" "parse_multiplicitave_expr_body this toks = Ok res ts"
  shows "terminators ts = terminators toks"
  using assms(2) unfolding parse_multiplicitave_expr_body_def
  by (auto elim!: bind_OkE split: if_splits prod.splits option.splits Expr.splits
      simp: terminators_Cons not_terminator eat_Cons eat_Nil
      dest!: cursor_OkD semicolon_freeD [OF assms(1)])

lemma multiplicitave_loop_semicolon_free:
  assumes "semicolon_free this" "multiplicitave_loop_body this x toks = Ok res ts"
  shows "terminators ts = terminators toks"
  using assms(2) unfolding multiplicitave_loop_body_def
  by (auto elim!: bind_OkE split: if_splits prod.splits option.splits Expr.splits
      simp: terminators_Cons not_terminator eat_Cons eat_Nil
      dest!: cursor_OkD semicolon_freeD [OF assms(1)])

lemma parse_call_member_expr_semicolon_free:
  assumes "semicolon_free this" "parse_call_member_expr_body this toks = Ok res ts"
  shows "terminators ts = terminators toks"
  using assms(2) unfolding parse_call_member_expr_body_def
  by (auto elim!: bind_OkE split: if_splits prod.splits option.splits Expr.splits
      simp: terminators_Cons not_terminator eat_Cons eat_Nil
      dest!: cursor_OkD semicolon_freeD [OF assms(1)])

lemma parse_call_expr_semicolon_free:
  assumes "semicolon_free this" "parse_call_expr_body this x toks = Ok res ts"
  shows "terminators ts = terminators toks"
  using assms(2) unfolding parse_call_expr_body_def
  by (auto elim!: bind_OkE split: if_splits prod.splits option.splits Expr.splits
      simp: terminators_Cons not_terminator eat_Cons eat_Nil
      dest!: cursor_OkD semicolon_freeD [OF assms(1)])

lemma parse_args_semicolon_free:
  assumes "semicolon_free this" "parse_args_body this toks = Ok res ts"
  shows "terminators ts = terminators toks"
  using assms(2) unfolding parse_args_body_def
  by (auto elim!: bind_OkE split: if_splits prod.splits option.splits Expr.splits
      simp: terminators_Cons not_terminator eat_Cons eat_Nil
      dest!: cursor_OkD semicolon_freeD [OF assms(1)])

lemma parse_arguments_list_semicolon_free:
  assumes "semicolon_free this" "parse_arguments_list_body this toks = Ok res ts"
  shows "terminators ts = terminators toks"
  using assms(2) unfolding parse_arguments_list_body_def
  by (auto elim!: bind_OkE split: if_splits prod.splits option.splits Expr.splits
      simp: terminators_Cons not_terminator eat_Cons eat_Nil
      dest!: cursor_OkD semicolon_freeD [OF assms(1)])

lemma arguments_loop_semicolon_free:
  assumes "semicolon_free this" "arguments_loop_body this x toks = Ok res ts"
  shows "terminators ts = terminators toks"
  using assms(2) unfolding arguments_loop_body_def
  by (auto elim!: bind_OkE split: if_splits prod.splits option.splits Expr.splits
      simp: terminators_Cons not_terminator eat_Cons eat_Nil
      dest!: cursor_OkD semicolon_freeD [OF assms(1)])

lemma parse_member_expr_semicolon_free:
  assumes "semicolon_free this" "parse_member_expr_body this toks = Ok res ts"
  shows "terminators ts = terminators toks"
  using assms(2) unfolding parse_member_expr_body_def
  by (auto elim!: bind_OkE split: if_splits prod.splits option.splits Expr.splits
      simp: terminators_Cons not_terminator eat_Cons eat_Nil
      dest!: cursor_OkD semicolon_freeD [OF assms(1)])

lemma member_loop_semicolon_free:
  assumes "semicolon_free this" "member_loop_body this x toks = Ok res ts"
  shows "terminators ts = terminators toks"
  using assms(2) unfolding member_loop_body_def
  by (auto elim!: bind_OkE split: if_splits prod.splits option.splits Expr.splits
      simp: terminators_Cons not_terminator eat_Cons eat_Nil
      dest!: cursor_OkD semicolon_freeD [OF assms(1)])

lemma parse_primary_expr_semicolon_free:
  assumes "semicolon_free this" "parse_primary_expr_body this toks = Ok res ts"
  shows "terminators ts = terminators toks"
  using assms(2) unfolding parse_primary_expr_body_def
  by (auto elim!: bind_OkE split: if_splits prod.splits option.splits Expr.splits
      simp: terminators_Cons not_terminator eat_Cons eat_Nil
      dest!: cursor_OkD semicolon_freeD [OF assms(1)])

lemmas body_semicolon_free =
  parse_expr_semicolon_free parse_assignment_expr_semicolon_free
  parse_object_expr_semicolon_free object_loop_semicolon_free
  parse_additive_expr_semicolon_free additive_loop_semicolon_free
  parse_multiplicitave_expr_semicolon_free multiplicitave_loop_semicolon_free
  parse_call_member_expr_semicolon_free parse_call_expr_semicolon_free
  parse_args_semicolon_free parse_arguments_list_semicolon_free arguments_loop_semicolon_free
  parse_member_expr_semicolon_free member_loop_semicolon_free
  parse_primary_expr_semicolon_free

lemma semicolon_free_parser: "semicolon_free (parser n)"
proof (induction n)
  case 0
  show ?case by (simp add: semicolon_free_def parser_0)
next
  case (Suc n)
  show ?case
    unfolding semicolon_free_def parser_Suc
    by (intro conjI allI impI) (erule body_semicolon_free [OF Suc])+
qed

text \<open>
  C10. An expression statement takes no terminator. A statement that does not start with a
  keyword is the expression \<open>parse_expr\<close> returns, with the buffer \<open>parse_expr\<close> leaves, and
  no method of the expression grammar consumes a semicolon: the statement ends with as many
  semicolons in the buffer as it started with. When the expression is followed by a
  semicolon, the semicolon is where the next statement is expected, and the program stops
  at it with the unexpected-token error; a semicolon where a statement is expected is
  fatal whatever follows it and whatever was parsed before it, in the loop of the program
  and in the loop of a block alike. A variable declaration does need its semicolon: after the
  value the next token must be a semicolon, and after the name a semicolon or an equals
  sign. So \<^verbatim>\<open>1;\<close> fails at the semicolon, \<^verbatim>\<open>set x = 1;\<close> parses and \<^verbatim>\<open>set x = 1\<close> fails
  in \<open>expect\<close>.
\<close>

theorem expression_statement_no_semicolon:
  "(\<not> statement_keyword t0 \<longrightarrow>
      parse_stmt (parser (Suc n)) (t0 # r) =
        bind (parse_expr (parser n) (t0 # r)) (\<lambda>e ts. Ok (ExprStmt e) ts))
   \<and> (parse_expr (parser n) (t0 # r) = Ok e (t # ts) \<and> \<not> statement_keyword t0
        \<and> type t = TokenType_Semicolon \<and> n + 12 \<le> m
      \<longrightarrow> parse_stmt (parser m) (t0 # r) = Ok (ExprStmt e) (t # ts)
          \<and> produceAST m (t0 # r) = Error (UnexpectedToken t))
   \<and> (parse_expr (parser n) ts0 = Ok d (t # ts) \<longrightarrow>
        parse_var_declaration (parser (Suc n))
          (kw # tok TokenType_Identifier x # tok TokenType_Equals w # ts0) =
        (if type t = TokenType_Semicolon
         then Ok (VarDeclaration x (Some d) (type kw = TokenType_Lock)) ts
         else Error (ExpectFailed ''Variable declaration statment must end with semicolon.''
                       (Some t) TokenType_Semicolon)))
   \<and> (type t \<noteq> TokenType_Semicolon \<and> type t \<noteq> TokenType_Equals \<longrightarrow>
        parse_var_declaration (parser (Suc n)) (kw # tok TokenType_Identifier x # t # ts) =
        Error (ExpectFailed ''Expected equals token following identifier in var declaration.''
                 (Some t) TokenType_Equals))
   \<and> (\<not> statement_keyword t0 \<and> parse_stmt (parser n) (t0 # r) = Ok s ts \<longrightarrow>
        terminators ts = terminators (t0 # r))
   \<and> semicolon_free (parser n)
   \<and> (type t = TokenType_Semicolon \<longrightarrow>
        program_loop (Suc (Suc (Suc (Suc (Suc (Suc (Suc (Suc (Suc (Suc n)))))))))) body (t # ts) =
          Error (UnexpectedToken t)
        \<and> stmt_loop (parser (Suc (Suc (Suc (Suc (Suc (Suc (Suc (Suc (Suc (Suc n))))))))))) stmts (t # ts) =
          Error (UnexpectedToken t)
        \<and> parse (t # ts) = Error (UnexpectedToken t))
   \<and> parse_stmt (parser (Suc (Suc (Suc (Suc (Suc (Suc (Suc (Suc (Suc n))))))))))
      (tok TokenType_Semicolon v # ts) =
     Error (UnexpectedToken (tok TokenType_Semicolon v))
   \<and> parse_stmt (parser (fuel_of tokens_1_semicolon)) tokens_1_semicolon =
     Ok (ExprStmt (NumericLiteral (Exact 1))) [tok TokenType_Semicolon '';'', EOF_token]
   \<and> parse tokens_1_semicolon = Error (UnexpectedToken (tok TokenType_Semicolon '';''))
   \<and> parse tokens_set_x_1_semicolon =
     Ok (Program [VarDeclaration ''x'' (Some (NumericLiteral (Exact 1))) False]) [EOF_token]
   \<and> parse tokens_set_x_1 =
     Error (ExpectFailed ''Variable declaration statment must end with semicolon.''
              (Some EOF_token) TokenType_Semicolon)"
proof -
  have top: "parse_stmt (parser m) (t0 # r) = Ok (ExprStmt e) (t # ts)
          \<and> produceAST m (t0 # r) = Error (UnexpectedToken t)"
    if e: "parse_expr (parser n) (t0 # r) = Ok e (t # ts)"
      and t0: "\<not> statement_keyword t0"
      and t: "type t = TokenType_Semicolon"
      and m: "n + 12 \<le> m"
  proof -
    have stmt: "parse_stmt (parser k) (t0 # r) = Ok (ExprStmt e) (t # ts)" if "Suc n \<le> k" for k
    proof -
      have "parse_stmt (parser (Suc n)) (t0 # r) = Ok (ExprStmt e) (t # ts)"
        using e t0 by (simp add: expression_statement)
      with parser_lift(1) [OF that] show ?thesis by simp
    qed
    have nt: "\<not> starts_statement t" "type t \<noteq> TokenType_EOF"
      using t by (simp_all add: starts_statement_def statement_keyword_def)
    have "produceAST m (t0 # r) = Error (UnexpectedToken t)"
    proof (rule program_stops)
      show "parse_stmt (parser k) (t0 # r) = Ok (ExprStmt e) (t # ts)" if "Suc n \<le> k" for k
        using that by (rule stmt)
      show "\<not> starts_statement t" "type t \<noteq> TokenType_EOF" by (rule nt)+
      show "Suc n + 11 \<le> m" using m by simp
    qed
    with stmt [of m] m show ?thesis by simp
  qed
  have examples:
    "parse_stmt (parser (Suc (Suc (Suc (Suc (Suc (Suc (Suc (Suc (Suc n))))))))))
      (tok TokenType_Semicolon v # ts) =
     Error (UnexpectedToken (tok TokenType_Semicolon v))
   \<and> parse_stmt (parser (fuel_of tokens_1_semicolon)) tokens_1_semicolon =
     Ok (ExprStmt (NumericLiteral (Exact 1))) [tok TokenType_Semicolon '';'', EOF_token]
   \<and> parse tokens_1_semicolon = Error (UnexpectedToken (tok TokenType_Semicolon '';''))
   \<and> parse tokens_set_x_1_semicolon =
     Ok (Program [VarDeclaration ''x'' (Some (NumericLiteral (Exact 1))) False]) [EOF_token]
   \<and> parse tokens_set_x_1 =
     Error (ExpectFailed ''Variable declaration statment must end with semicolon.''
              (Some EOF_token) TokenType_Semicolon)"
    by (simp add: input_defs run_simps parseFloat_digit cong: bind_weak_cong)
  have keeps: "terminators ts = terminators (t0 # r)"
    if t0: "\<not> statement_keyword t0" and s: "parse_stmt (parser n) (t0 # r) = Ok s ts"
  proof (cases n)
    case 0
    with s show ?thesis by (simp add: parser_0)
  next
    case (Suc k)
    with s t0 obtain e where "parse_expr (parser k) (t0 # r) = Ok e ts"
      by (auto simp: expression_statement elim!: bind_OkE)
    then show ?thesis by (rule semicolon_freeD(1) [OF semicolon_free_parser])
  qed
  have expected: "program_loop (Suc (Suc (Suc (Suc (Suc (Suc (Suc (Suc (Suc (Suc n)))))))))) body (t # ts) =
          Error (UnexpectedToken t)
        \<and> stmt_loop (parser (Suc (Suc (Suc (Suc (Suc (Suc (Suc (Suc (Suc (Suc n))))))))))) stmts (t # ts) =
          Error (UnexpectedToken t)
        \<and> parse (t # ts) = Error (UnexpectedToken t)"
    if t: "type t = TokenType_Semicolon"
  proof -
    from t have nt: "\<not> starts_statement t" "type t \<noteq> TokenType_EOF"
      and brace: "type t \<noteq> TokenType_CloseBrace"
      by (simp_all add: starts_statement_def statement_keyword_def)
    have fuel: "fuel_of (t # ts) =
        Suc (Suc (Suc (Suc (Suc (Suc (Suc (Suc (Suc (Suc (16 * length ts + 22))))))))))"
      by (simp add: fuel_of_def)
    have "parse (t # ts) = Error (UnexpectedToken t)"
      unfolding parse_def fuel produceAST_def statement_expected(1) [OF nt] by simp
    with statement_expected [OF nt] brace show ?thesis by simp
  qed
  from top keeps expected examples expression_statement [of t0 n r]
    declaration_terminator [of n ts0 d t ts kw x w]
    declaration_needs_semicolon_or_equals [of t n kw x ts]
    semicolon_free_parser [of n]
  show ?thesis by blast
qed

theorem expression_statement_no_semicolon_witness:
  "\<not> statement_keyword (tok TokenType_Number ''1'')
   \<and> parse_expr (parser 10) [tok TokenType_Number ''1'', tok TokenType_Semicolon '';'',
     EOF_token] =
       Ok (NumericLiteral (Exact 1)) [tok TokenType_Semicolon '';'', EOF_token]
   \<and> type (tok TokenType_Semicolon '';'') = TokenType_Semicolon
   \<and> (10::nat) + 12 \<le> 30
   \<and> parse_expr (parser 10) [tok TokenType_Number ''1'', EOF_token] =
       Ok (NumericLiteral (Exact 1)) [EOF_token]
   \<and> type (tok TokenType_Number ''1'') \<noteq> TokenType_Semicolon
   \<and> type (tok TokenType_Number ''1'') \<noteq> TokenType_Equals
   \<and> terminators [tok TokenType_Semicolon '';'', EOF_token] = 1
   \<and> parse_stmt (parser (Suc 10)) [tok TokenType_Number ''1'',
     tok TokenType_Semicolon '';'', EOF_token] =
       Ok (ExprStmt (NumericLiteral (Exact 1))) [tok TokenType_Semicolon '';'', EOF_token]
   \<and> parse_stmt (parser 30) [tok TokenType_Number ''1'', tok TokenType_Semicolon '';'',
     EOF_token] =
       Ok (ExprStmt (NumericLiteral (Exact 1))) [tok TokenType_Semicolon '';'', EOF_token]
   \<and> produceAST 30 [tok TokenType_Number ''1'', tok TokenType_Semicolon '';'',
     EOF_token] = Error (UnexpectedToken (tok TokenType_Semicolon '';''))
   \<and> terminators [tok TokenType_Semicolon '';'',
     EOF_token] = terminators [tok TokenType_Number ''1'', tok TokenType_Semicolon '';'',
       EOF_token]
   \<and> parse_var_declaration (parser (Suc 10)) [tok TokenType_Set ''set'',
     tok TokenType_Identifier ''x'', tok TokenType_Equals ''='', tok TokenType_Number ''1'',
       tok TokenType_Semicolon '';'', EOF_token] =
       Ok (VarDeclaration ''x'' (Some (NumericLiteral (Exact 1))) False) [EOF_token]
   \<and> parse_var_declaration (parser (Suc 10)) [tok TokenType_Set ''set'',
     tok TokenType_Identifier ''x'', tok TokenType_Equals ''='', tok TokenType_Number ''1'',
       EOF_token] =
       Error (ExpectFailed ''Variable declaration statment must end with semicolon.''
                (Some EOF_token) TokenType_Semicolon)
   \<and> parse_var_declaration (parser (Suc 10)) [tok TokenType_Set ''set'',
     tok TokenType_Identifier ''x'', tok TokenType_Number ''1'', EOF_token] =
       Error (ExpectFailed ''Expected equals token following identifier in var declaration.''
                (Some (tok TokenType_Number ''1'')) TokenType_Equals)
   \<and> semicolon_free (parser 10)
   \<and> program_loop (Suc (Suc (Suc (Suc (Suc (Suc (Suc (Suc (Suc (Suc 1)))))))))) [ExprStmt
     (NumericLiteral (Exact 1))] [tok TokenType_Semicolon '';'', EOF_token] =
       Error (UnexpectedToken (tok TokenType_Semicolon '';''))
   \<and> stmt_loop (parser (Suc (Suc (Suc (Suc (Suc (Suc (Suc (Suc (Suc
     (Suc 1))))))))))) [] [tok TokenType_Semicolon '';'', EOF_token] =
       Error (UnexpectedToken (tok TokenType_Semicolon '';''))
   \<and> parse [tok TokenType_Semicolon '';'',
     EOF_token] = Error (UnexpectedToken (tok TokenType_Semicolon '';''))"
proof -
  have kw: "\<not> statement_keyword (tok TokenType_Number ''1'')"
    by (simp add: additive_operator_def multiplicative_operator_def statement_keyword_def
        equality_token_def EOF_token_def tok_def)
  have e1: "parse_expr (parser 10) [tok TokenType_Number ''1'', tok TokenType_Semicolon '';'',
    EOF_token] =
       Ok (NumericLiteral (Exact 1)) [tok TokenType_Semicolon '';'', EOF_token]"
    by (simp add: input_defs run_simps parseFloat_digit cong: bind_weak_cong)
  have ty: "type (tok TokenType_Semicolon '';'') = TokenType_Semicolon"
    by (simp add: tok_def)
  have le: "(10::nat) + 12 \<le> 30"
    by simp
  have e2: "parse_expr (parser 10) [tok TokenType_Number ''1'', EOF_token] =
       Ok (NumericLiteral (Exact 1)) [EOF_token]"
    by (simp add: input_defs run_simps parseFloat_digit cong: bind_weak_cong)
  have ne: "type (tok TokenType_Number ''1'') \<noteq> TokenType_Semicolon
   \<and> type (tok TokenType_Number ''1'') \<noteq> TokenType_Equals"
    by (simp add: tok_def)
  have cnt: "terminators [tok TokenType_Semicolon '';'', EOF_token] = 1"
    by (simp add: terminators_def terminator_def additive_operator_def
        multiplicative_operator_def EOF_token_def tok_def)
  from expression_statement_no_semicolon [where ?t0.0 = "tok TokenType_Number ''1''"
      and n = 10
      and r = "[tok TokenType_Semicolon '';'', EOF_token]"
      and e = "NumericLiteral (Exact 1)"
      and t = "tok TokenType_Semicolon '';''"
      and ts = "[EOF_token]"
      and m = 30]
    kw e1
  have s1: "parse_stmt (parser (Suc 10)) [tok TokenType_Number ''1'',
    tok TokenType_Semicolon '';'', EOF_token] =
       Ok (ExprStmt (NumericLiteral (Exact 1))) [tok TokenType_Semicolon '';'', EOF_token]"
    by simp
  from expression_statement_no_semicolon [where ?t0.0 = "tok TokenType_Number ''1''"
      and n = 10
      and r = "[tok TokenType_Semicolon '';'', EOF_token]"
      and e = "NumericLiteral (Exact 1)"
      and t = "tok TokenType_Semicolon '';''"
      and ts = "[EOF_token]"
      and m = 30]
    kw e1 ty le
  have s2: "parse_stmt (parser 30) [tok TokenType_Number ''1'', tok TokenType_Semicolon '';'',
    EOF_token] =
       Ok (ExprStmt (NumericLiteral (Exact 1))) [tok TokenType_Semicolon '';'', EOF_token]"
    by blast
  from expression_statement_no_semicolon [where ?t0.0 = "tok TokenType_Number ''1''"
      and n = 10
      and r = "[tok TokenType_Semicolon '';'', EOF_token]"
      and e = "NumericLiteral (Exact 1)"
      and t = "tok TokenType_Semicolon '';''"
      and ts = "[EOF_token]"
      and m = 30]
    kw e1 ty le
  have s3: "produceAST 30 [tok TokenType_Number ''1'', tok TokenType_Semicolon '';'',
    EOF_token] = Error (UnexpectedToken (tok TokenType_Semicolon '';''))"
    by blast
  from expression_statement_no_semicolon [where ?t0.0 = "tok TokenType_Number ''1''"
      and n = 30
      and r = "[tok TokenType_Semicolon '';'', EOF_token]"
      and s = "ExprStmt (NumericLiteral (Exact 1))"
      and ts = "[tok TokenType_Semicolon '';'', EOF_token]"]
    kw s2
  have s4: "terminators [tok TokenType_Semicolon '';'',
    EOF_token] = terminators [tok TokenType_Number ''1'', tok TokenType_Semicolon '';'',
      EOF_token]"
    by blast
  from expression_statement_no_semicolon [where n = 10
      and ?ts0.0 = "[tok TokenType_Number ''1'', tok TokenType_Semicolon '';'', EOF_token]"
      and d = "NumericLiteral (Exact 1)"
      and t = "tok TokenType_Semicolon '';''"
      and ts = "[EOF_token]"
      and kw = "tok TokenType_Set ''set''"
      and x = "''x''"
      and w = "''=''"]
    e1 ty
  have d1: "parse_var_declaration (parser (Suc 10)) [tok TokenType_Set ''set'',
    tok TokenType_Identifier ''x'', tok TokenType_Equals ''='', tok TokenType_Number ''1'',
      tok TokenType_Semicolon '';'', EOF_token] =
       Ok (VarDeclaration ''x'' (Some (NumericLiteral (Exact 1))) False) [EOF_token]"
    by (simp add: tok_def)
  from expression_statement_no_semicolon [where n = 10
      and ?ts0.0 = "[tok TokenType_Number ''1'', EOF_token]"
      and d = "NumericLiteral (Exact 1)"
      and t = EOF_token
      and ts = "[]"
      and kw = "tok TokenType_Set ''set''"
      and x = "''x''"
      and w = "''=''"]
    e2
  have d2: "parse_var_declaration (parser (Suc 10)) [tok TokenType_Set ''set'',
    tok TokenType_Identifier ''x'', tok TokenType_Equals ''='', tok TokenType_Number ''1'',
      EOF_token] =
       Error (ExpectFailed ''Variable declaration statment must end with semicolon.''
                (Some EOF_token) TokenType_Semicolon)"
    by (simp add: tok_def EOF_token_def)
  from expression_statement_no_semicolon [where t = "tok TokenType_Number ''1''"
      and n = 10
      and kw = "tok TokenType_Set ''set''"
      and x = "''x''"
      and ts = "[EOF_token]"]
    ne
  have d3: "parse_var_declaration (parser (Suc 10)) [tok TokenType_Set ''set'',
    tok TokenType_Identifier ''x'', tok TokenType_Number ''1'', EOF_token] =
       Error (ExpectFailed ''Expected equals token following identifier in var declaration.''
                (Some (tok TokenType_Number ''1'')) TokenType_Equals)"
    by (simp add: tok_def)
  from expression_statement_no_semicolon [where n = 10]
  have f1: "semicolon_free (parser 10)"
    by blast
  from semicolon_freeD(1) [OF f1 e1] have f2: "terminators [tok TokenType_Semicolon '';'',
    EOF_token] = terminators [tok TokenType_Number ''1'', tok TokenType_Semicolon '';'',
      EOF_token]" .
  from expression_statement_no_semicolon [where t = "tok TokenType_Semicolon '';''"
      and n = 1
      and body = "[ExprStmt (NumericLiteral (Exact 1))]"
      and stmts = "[]"
      and ts = "[EOF_token]"]
    ty
  have p1: "program_loop (Suc (Suc (Suc (Suc (Suc (Suc (Suc (Suc (Suc (Suc 1)))))))))) [ExprStmt
    (NumericLiteral (Exact 1))] [tok TokenType_Semicolon '';'', EOF_token] =
       Error (UnexpectedToken (tok TokenType_Semicolon '';''))"
    by blast
  from expression_statement_no_semicolon [where t = "tok TokenType_Semicolon '';''"
      and n = 1
      and body = "[ExprStmt (NumericLiteral (Exact 1))]"
      and stmts = "[]"
      and ts = "[EOF_token]"]
    ty
  have p2: "stmt_loop (parser (Suc (Suc (Suc (Suc (Suc (Suc (Suc (Suc (Suc
    (Suc 1))))))))))) [] [tok TokenType_Semicolon '';'', EOF_token] =
       Error (UnexpectedToken (tok TokenType_Semicolon '';''))"
    by blast
  from expression_statement_no_semicolon [where t = "tok TokenType_Semicolon '';''"
      and n = 1
      and body = "[ExprStmt (NumericLiteral (Exact 1))]"
      and stmts = "[]"
      and ts = "[EOF_token]"]
    ty
  have p3: "parse [tok TokenType_Semicolon '';'',
    EOF_token] = Error (UnexpectedToken (tok TokenType_Semicolon '';''))"
    by blast
  from kw e1 ty le e2 ne cnt s1 s2 s3 s4 d1 d2 d3 f1 p1 p2 p3 show ?thesis by blast
qed

section \<open>Equality tokens\<close>






































end
